theory Spec2Isabelle
  imports Main "HOL-Library.Log_Nat" "HOL-Library.AList"
begin

text \<open>
  The coordinate normalisation of cfgrib: \<^verbatim>\<open>cfgrib/cfunits.py\<close>, the conversion between
  pressure units, and \<^verbatim>\<open>cfgrib/cfcoords.py\<close>, which recognises the coordinates of a
  dataset by their attributes, renames them to their CF names, converts their units, and
  derives the valid time. Each Python function is a HOL function of the same name;
  exceptions are values of a sum type, and a dataset that the source mutates is returned.
\<close>

section \<open>Python values used by cfgrib\<close>

text \<open>
  Every \<^verbatim>\<open>raise\<close> of the two modules, and every exception of the Python runtime or
  of the dataset container that the modelled paths can meet, is a value of \<open>error\<close>.
  The three \<^verbatim>\<open>raise ValueError(...)\<close> sites of \<^verbatim>\<open>cfcoords.py\<close> are kept apart by
  constructor: \<open>RoleConflict\<close> is "Found more than one CF coordinate with type %r",
  \<open>NamingConflict\<close> is "Found non CF compliant coordinate with type %r" (both carry
  the \<^verbatim>\<open>cf_type\<close> that the message formats), \<open>DerivationError\<close> is "Not enough
  information to ensure a 'valid_time'". \<open>KeyError\<close> is a failed lookup in the
  coordinate mapping, \<open>SwapDimsError\<close> the \<^verbatim>\<open>ValueError\<close> with which the container
  rejects a dimension swap.
\<close>

datatype error =
    ConversionError
  | ZeroDivisionError
  | RoleConflict string
  | NamingConflict string
  | DerivationError
  | KeyError string
  | SwapDimsError

subsection \<open>Floats\<close>

text \<open>
  A Python \<^verbatim>\<open>float\<close> is an IEEE 754 binary64 number. A finite one is modelled by the
  rational it denotes; \<open>binary64 q\<close> is the rational \<open>q\<close> rounded to the nearest
  binary64 value, ties to even: 53 significant bits, the spacing of the subnormal range
  below \<open>2 ^ -1022\<close>. Every float operation of the program is the exact operation
  followed by this rounding. Overflow to infinity, infinities and NaN are outside the
  model: values are finite and stay below \<open>2 ^ 1024\<close> in magnitude.
\<close>

definition round_half_even :: "rat \<Rightarrow> int" where
  "round_half_even q =
     (let f = \<lfloor>q\<rfloor>; r = q - of_int f
      in if r < 1 / 2 then f else if 1 / 2 < r then f + 1 else if even f then f else f + 1)"

definition pow2 :: "int \<Rightarrow> rat" where
  "pow2 e = (if 0 \<le> e then 2 ^ nat e else 1 / 2 ^ nat (- e))"

text \<open>\<open>ilog2 q\<close> is the binary exponent of a non-zero \<open>q\<close>: \<open>2 ^ ilog2 q \<le> \<bar>q\<bar> < 2 ^ (ilog2 q + 1)\<close>.\<close>

definition ilog2 :: "rat \<Rightarrow> int" where
  "ilog2 q = (if 1 \<le> \<bar>q\<bar> then bitlen \<lfloor>\<bar>q\<bar>\<rfloor> - 1 else - bitlen (\<lceil>1 / \<bar>q\<bar>\<rceil> - 1))"

definition binary64 :: "rat \<Rightarrow> rat" where
  "binary64 q =
     (if q = 0 then 0
      else let e = max (ilog2 q - 52) (- 1074)
           in of_int (round_half_even (q / pow2 e)) * pow2 e)"

text \<open>
  The arithmetic of \<^verbatim>\<open>cfunits.py\<close> takes its rounding as the parameter \<open>rnd\<close>:
  \<open>binary64\<close> is the program as CPython runs it, \<open>exact\<close> (no rounding) is the same
  program read over exact arithmetic.
\<close>

definition exact :: "rat \<Rightarrow> rat" where
  "exact q = q"

text \<open>\<^verbatim>\<open>data * factor\<close> for a float \<^verbatim>\<open>data\<close>.\<close>

definition float_times :: "(rat \<Rightarrow> rat) \<Rightarrow> rat \<Rightarrow> rat \<Rightarrow> rat" where
  "float_times rnd data factor = rnd (data * factor)"

section \<open>cfunits.py\<close>

text \<open>
  A rule table is a dict from a tuple of unit names to a float; it is read only by
  iteration, so it is the list of its items in the order the source writes them.
\<close>

type_synonym rules = "(string list \<times> rat) list"

definition PRESSURE_CONVERSION_RULES :: rules where
  "PRESSURE_CONVERSION_RULES =
     [([''Pa'', ''pascal''], 1),
      ([''hPa'', ''hectopascal'', ''hpascal'', ''millibar'', ''mbar''], 100),
      ([''decibar'', ''dbar''], 10000),
      ([''bar''], 100000),
      ([''atmosphere'', ''atm''], 101325)]"

text \<open>
  The body of the \<^verbatim>\<open>for\<close> loop of \<^verbatim>\<open>simple_conversion_factor\<close>, in its two halves. The
  state is \<open>(conversion_factor, seen)\<close>. Python's float division raises
  \<^verbatim>\<open>ZeroDivisionError\<close> on a zero divisor.
\<close>

definition source_step :: "(rat \<Rightarrow> rat) \<Rightarrow> string \<Rightarrow> string list \<times> rat \<Rightarrow> rat \<times> nat \<Rightarrow> error + rat \<times> nat" where
  "source_step rnd source_units rule st =
     (case rule of (pressure_units, factor) \<Rightarrow>
      case st of (conversion_factor, seen) \<Rightarrow>
        if source_units \<in> set pressure_units
        then (if factor = 0 then Inl ZeroDivisionError
              else Inr (rnd (conversion_factor / factor), seen + 1))
        else Inr (conversion_factor, seen))"

definition target_step :: "(rat \<Rightarrow> rat) \<Rightarrow> string \<Rightarrow> string list \<times> rat \<Rightarrow> rat \<times> nat \<Rightarrow> rat \<times> nat" where
  "target_step rnd target_units rule st =
     (case rule of (pressure_units, factor) \<Rightarrow>
      case st of (conversion_factor, seen) \<Rightarrow>
        if target_units \<in> set pressure_units
        then (rnd (conversion_factor * factor), seen + 1)
        else (conversion_factor, seen))"

fun scf_loop :: "(rat \<Rightarrow> rat) \<Rightarrow> string \<Rightarrow> string \<Rightarrow> rules \<Rightarrow> rat \<times> nat \<Rightarrow> error + rat \<times> nat" where
  "scf_loop rnd source_units target_units [] st = Inr st"
| "scf_loop rnd source_units target_units (rule # rest) st =
     (case source_step rnd source_units rule st of
        Inl e \<Rightarrow> Inl e
      | Inr st1 \<Rightarrow> scf_loop rnd source_units target_units rest (target_step rnd target_units rule st1))"

definition simple_conversion_factor :: "(rat \<Rightarrow> rat) \<Rightarrow> string \<Rightarrow> string \<Rightarrow> rules \<Rightarrow> error + rat" where
  "simple_conversion_factor rnd source_units target_units rules =
     (case scf_loop rnd source_units target_units rules (1, 0) of
        Inl e \<Rightarrow> Inl e
      | Inr (conversion_factor, seen) \<Rightarrow>
          if seen \<noteq> 2 then Inl ConversionError else Inr conversion_factor)"

text \<open>
  \<^verbatim>\<open>convert_units\<close> is duck-typed in \<^verbatim>\<open>data\<close>: \<open>mul\<close> is the \<^verbatim>\<open>*\<close> of the type of
  \<^verbatim>\<open>data\<close> with a float. The loop over the rule tables swallows \<^verbatim>\<open>ConversionError\<close>
  only; the call passes \<^verbatim>\<open>target_units\<close> as the \<^verbatim>\<open>source_units\<close> of
  \<^verbatim>\<open>simple_conversion_factor\<close>, as the source does.
\<close>

fun convert_units_loop ::
  "(rat \<Rightarrow> rat) \<Rightarrow> ('a \<Rightarrow> rat \<Rightarrow> 'a) \<Rightarrow> 'a \<Rightarrow> string \<Rightarrow> string \<Rightarrow> rules list \<Rightarrow> error + 'a" where
  "convert_units_loop rnd mul data target_units source_units [] = Inl ConversionError"
| "convert_units_loop rnd mul data target_units source_units (rules # rest) =
     (case simple_conversion_factor rnd target_units source_units rules of
        Inr factor \<Rightarrow> Inr (mul data factor)
      | Inl ConversionError \<Rightarrow> convert_units_loop rnd mul data target_units source_units rest
      | Inl e \<Rightarrow> Inl e)"

definition convert_units_with ::
  "(rat \<Rightarrow> rat) \<Rightarrow> ('a \<Rightarrow> rat \<Rightarrow> 'a) \<Rightarrow> 'a \<Rightarrow> string \<Rightarrow> string \<Rightarrow> error + 'a" where
  "convert_units_with rnd mul data target_units source_units =
     (if target_units = source_units then Inr data
      else convert_units_loop rnd mul data target_units source_units [PRESSURE_CONVERSION_RULES])"

text \<open>\<^verbatim>\<open>convert_units\<close> on a float, as the program runs it.\<close>

definition convert_units :: "rat \<Rightarrow> string \<Rightarrow> string \<Rightarrow> error + rat" where
  "convert_units data target_units source_units =
     convert_units_with binary64 (float_times binary64) data target_units source_units"

text \<open>The same function read over exact arithmetic.\<close>

definition convert_units_exact :: "rat \<Rightarrow> string \<Rightarrow> string \<Rightarrow> error + rat" where
  "convert_units_exact data target_units source_units =
     convert_units_with exact (float_times exact) data target_units source_units"

text \<open>
  \<^verbatim>\<open>are_convertible\<close> catches \<^verbatim>\<open>ConversionError\<close>; lemma \<open>convert_units_with_error\<close>
  below shows that \<^verbatim>\<open>convert_units\<close> raises nothing else.
\<close>

definition are_convertible :: "string \<Rightarrow> string \<Rightarrow> bool" where
  "are_convertible source_units target_units =
     (case convert_units 1 source_units target_units of Inl e \<Rightarrow> False | Inr v \<Rightarrow> True)"

text \<open>
  The number of group memberships of a unit string in a rule table, and the number of
  matches of a source and a target unit across the whole table.
\<close>

definition memberships :: "string \<Rightarrow> rules \<Rightarrow> nat" where
  "memberships u rules = length (filter (\<lambda>rule. u \<in> set (fst rule)) rules)"

definition group_matches :: "string \<Rightarrow> string \<Rightarrow> rules \<Rightarrow> nat" where
  "group_matches source_units target_units rules =
     memberships source_units rules + memberships target_units rules"

text \<open>The product of the factors of the groups a unit string belongs to.\<close>

definition group_factor :: "string \<Rightarrow> rules \<Rightarrow> rat" where
  "group_factor u rules = prod_list (map snd (filter (\<lambda>rule. u \<in> set (fst rule)) rules))"

section \<open>The dataset container\<close>

text \<open>
  \<^verbatim>\<open>cfcoords.py\<close> works on an xarray dataset through a handful of operations:
  enumeration of the coordinate mapping, lookup and assignment by name, the attribute
  dict of a coordinate, its dtype and size, arithmetic between coordinates, \<^verbatim>\<open>rename\<close>
  and \<^verbatim>\<open>swap_dims\<close>. The container is not part of the repository; this section
  models those operations and nothing else of it.

  A coordinate is an array with named dimensions: one dimension name and one extent per
  axis, and a value for every index (a list with one position per axis). Elements are
  numbers, attribute values are strings; both dicts of the container are insertion
  ordered, so they are association lists, looked up with \<open>map_of\<close> and assigned with
  \<open>AList.update\<close> (a present key keeps its place, a new key goes to the end). Data
  variables are not read by any function of the module and are left out.
\<close>

type_synonym attrs = "(string \<times> string) list"

record coord =
  c_dims :: "string list"
  c_shape :: "nat list"
  c_values :: "nat list \<Rightarrow> rat"
  c_attrs :: attrs
  c_dtype :: string

record dataset =
  ds_dims :: "(string \<times> nat) list"
  ds_coords :: "(string \<times> coord) list"

text \<open>\<^verbatim>\<open>coord.size\<close>.\<close>

definition coord_size :: "coord \<Rightarrow> nat" where
  "coord_size c = prod_list (c_shape c)"

text \<open>\<^verbatim>\<open>data.coords[name]\<close>, a \<^verbatim>\<open>KeyError\<close> when the name is absent.\<close>

definition coords_getitem :: "dataset \<Rightarrow> string \<Rightarrow> error + coord" where
  "coords_getitem data name =
     (case map_of (ds_coords data) name of None \<Rightarrow> Inl (KeyError name) | Some c \<Rightarrow> Inr c)"

text \<open>\<^verbatim>\<open>data.coords[name] = c\<close>; the source mutates \<^verbatim>\<open>data\<close>, the model returns it.\<close>

definition coords_setitem :: "dataset \<Rightarrow> string \<Rightarrow> coord \<Rightarrow> dataset" where
  "coords_setitem data name c = data\<lparr>ds_coords := AList.update name c (ds_coords data)\<rparr>"

text \<open>\<^verbatim>\<open>data.coords[name].attrs[key] = v\<close>: the attribute dict of the stored coordinate is mutated.\<close>

definition attrs_setitem :: "dataset \<Rightarrow> string \<Rightarrow> string \<Rightarrow> string \<Rightarrow> error + dataset" where
  "attrs_setitem data name key v =
     (case coords_getitem data name of
        Inl e \<Rightarrow> Inl e
      | Inr c \<Rightarrow> Inr (coords_setitem data name (c\<lparr>c_attrs := AList.update key v (c_attrs c)\<rparr>)))"

text \<open>
  Arithmetic between two coordinates broadcasts by dimension name: the result has the
  dimensions of the left operand followed by those found only in the right one, and its
  element at an index is the sum of the operands' elements at the positions of their own
  dimensions. \<open>along rdims ds idx\<close> is the part of the index \<open>idx\<close> (over \<open>rdims\<close>) that
  belongs to the dimensions \<open>ds\<close>. The result of an arithmetic operation carries no
  attributes. Its dtype is kept only for the use this module makes of it (a datetime plus
  a timedelta): it is the left operand's.
\<close>

fun position :: "string \<Rightarrow> string list \<Rightarrow> nat" where
  "position d [] = 0"
| "position d (x # xs) = (if x = d then 0 else Suc (position d xs))"

definition along :: "string list \<Rightarrow> string list \<Rightarrow> nat list \<Rightarrow> nat list" where
  "along rdims ds idx = map (\<lambda>d. idx ! position d rdims) ds"

definition coord_add :: "coord \<Rightarrow> coord \<Rightarrow> coord" where
  "coord_add a b =
     (let extra = filter (\<lambda>p. fst p \<notin> set (c_dims a)) (zip (c_dims b) (c_shape b));
          rdims = c_dims a @ map fst extra
      in \<lparr>c_dims = rdims,
          c_shape = c_shape a @ map snd extra,
          c_values = (\<lambda>idx. c_values a (along rdims (c_dims a) idx)
                             + c_values b (along rdims (c_dims b) idx)),
          c_attrs = [],
          c_dtype = c_dtype a\<rparr>)"

text \<open>
  \<^verbatim>\<open>coord * factor\<close> with a float factor: every element, a float64 value, is
  multiplied in binary64, and the attributes are dropped as for every arithmetic result.
\<close>

definition coord_times :: "coord \<Rightarrow> rat \<Rightarrow> coord" where
  "coord_times c factor =
     c\<lparr>c_values := (\<lambda>idx. float_times binary64 (c_values c idx) factor), c_attrs := []\<rparr>"

text \<open>
  \<^verbatim>\<open>data.rename({old: new})\<close> renames the variable and the dimension of that name, in
  place in the ordering. The container refuses a new name that another variable already
  has; \<^verbatim>\<open>translator\<close> calls it only after its own loop has excluded that for
  coordinates.
\<close>

definition rename_name :: "string \<Rightarrow> string \<Rightarrow> string \<Rightarrow> string" where
  "rename_name old new x = (if x = old then new else x)"

definition rename_dims :: "string \<Rightarrow> string \<Rightarrow> coord \<Rightarrow> coord" where
  "rename_dims old new c = c\<lparr>c_dims := map (rename_name old new) (c_dims c)\<rparr>"

definition rename :: "dataset \<Rightarrow> string \<Rightarrow> string \<Rightarrow> dataset" where
  "rename data old new =
     \<lparr>ds_dims = map (\<lambda>p. (rename_name old new (fst p), snd p)) (ds_dims data),
      ds_coords = map (\<lambda>p. (rename_name old new (fst p), rename_dims old new (snd p))) (ds_coords data)\<rparr>"

text \<open>
  \<^verbatim>\<open>data.swap_dims({old: new})\<close>: the container raises \<^verbatim>\<open>ValueError\<close> unless \<^verbatim>\<open>old\<close>
  is an existing dimension and the variable \<^verbatim>\<open>new\<close> is one-dimensional along it; then
  the dimension \<^verbatim>\<open>old\<close> is called \<^verbatim>\<open>new\<close> in the dataset and in every variable.
\<close>

definition swap_dims :: "dataset \<Rightarrow> string \<Rightarrow> string \<Rightarrow> error + dataset" where
  "swap_dims data old new =
     (if old \<notin> set (map fst (ds_dims data)) then Inl SwapDimsError
      else case map_of (ds_coords data) new of
             None \<Rightarrow> Inl (KeyError new)
           | Some v \<Rightarrow>
               if c_dims v \<noteq> [old] then Inl SwapDimsError
               else Inr \<lparr>ds_dims = map (\<lambda>p. (rename_name old new (fst p), snd p)) (ds_dims data),
                         ds_coords = map (\<lambda>p. (fst p, rename_dims old new (snd p))) (ds_coords data)\<rparr>)"

section \<open>cfcoords.py\<close>

fun match_values :: "('v \<Rightarrow> bool) \<Rightarrow> (string \<times> 'v) list \<Rightarrow> string list" where
  "match_values match_value_func [] = []"
| "match_values match_value_func ((name, v) # rest) =
     (if match_value_func v then name # match_values match_value_func rest
      else match_values match_value_func rest)"

text \<open>
  \<^verbatim>\<open>COORD_MODEL\<close> maps a role to a dict with the optional keys \<^verbatim>\<open>out_name\<close> and
  \<^verbatim>\<open>units\<close>; \<open>model_get coord_model cf_type key fallback\<close> is
  \<^verbatim>\<open>coord_model.get(cf_type, {}).get(key, fallback)\<close>.
\<close>

type_synonym coord_model = "(string \<times> (string \<times> string) list) list"

definition COORD_MODEL :: coord_model where
  "COORD_MODEL = []"

definition model_get :: "coord_model \<Rightarrow> string \<Rightarrow> string \<Rightarrow> string \<Rightarrow> string" where
  "model_get coord_model cf_type key fallback =
     (case map_of (case map_of coord_model cf_type of None \<Rightarrow> [] | Some m \<Rightarrow> m) key of
        None \<Rightarrow> fallback
      | Some v \<Rightarrow> v)"

text \<open>
  \<^verbatim>\<open>translator\<close>. The unit conversion is \<^verbatim>\<open>convert_units\<close> on a coordinate, so its
  \<^verbatim>\<open>*\<close> is \<open>coord_times\<close>. The last statement writes the attribute key \<^verbatim>\<open>'untis'\<close>, as the
  source spells it.
\<close>

definition translator ::
  "string \<Rightarrow> string \<Rightarrow> (coord \<Rightarrow> bool) \<Rightarrow> string \<Rightarrow> dataset \<Rightarrow> coord_model \<Rightarrow> error + dataset" where
  "translator default_out_name default_units is_cf_type cf_type data coord_model =
     (let out_name = model_get coord_model cf_type ''out_name'' default_out_name;
          units = model_get coord_model cf_type ''units'' default_units;
          matches = match_values is_cf_type (ds_coords data)
      in if length matches > 1 then Inl (RoleConflict cf_type)
         else case matches of
           [] \<Rightarrow> Inr data
         | match # _ \<Rightarrow>
             if list_ex (\<lambda>name. name = out_name \<and> name \<noteq> match) (map fst (ds_coords data))
             then Inl (NamingConflict cf_type)
             else let data1 = rename data match out_name
                  in case coords_getitem data1 out_name of
                       Inl e \<Rightarrow> Inl e
                     | Inr coord \<Rightarrow>
                         (case map_of (c_attrs coord) ''units'' of
                            None \<Rightarrow> Inr data1
                          | Some coord_units \<Rightarrow>
                              (case convert_units_with binary64 coord_times coord units coord_units of
                                 Inl e \<Rightarrow> Inl e
                               | Inr converted \<Rightarrow>
                                   attrs_setitem (coords_setitem data1 out_name converted)
                                     out_name ''untis'' units)))"

definition VALID_LAT_UNITS :: "string list" where
  "VALID_LAT_UNITS =
     [''degrees_north'', ''degree_north'', ''degree_N'', ''degrees_N'', ''degreeN'', ''degreesN'']"

definition is_latitude :: "coord \<Rightarrow> bool" where
  "is_latitude coord =
     (case map_of (c_attrs coord) ''units'' of None \<Rightarrow> False | Some u \<Rightarrow> u \<in> set VALID_LAT_UNITS)"

definition VALID_LON_UNITS :: "string list" where
  "VALID_LON_UNITS =
     [''degrees_east'', ''degree_east'', ''degree_E'', ''degrees_E'', ''degreeE'', ''degreesE'']"

definition is_longitude :: "coord \<Rightarrow> bool" where
  "is_longitude coord =
     (case map_of (c_attrs coord) ''units'' of None \<Rightarrow> False | Some u \<Rightarrow> u \<in> set VALID_LON_UNITS)"

definition is_forecast_reference_time :: "coord \<Rightarrow> bool" where
  "is_forecast_reference_time coord =
     (map_of (c_attrs coord) ''standard_name'' = Some ''forecast_reference_time'')"

definition is_forecast_period :: "coord \<Rightarrow> bool" where
  "is_forecast_period coord = (map_of (c_attrs coord) ''standard_name'' = Some ''forecast_period'')"

definition is_valid_time :: "coord \<Rightarrow> bool" where
  "is_valid_time coord =
     (if map_of (c_attrs coord) ''standard_name'' = Some ''time'' then True
      else if c_dtype coord = ''datetime64[ns]'' \<and> map_of (c_attrs coord) ''standard_name'' = None
      then True
      else False)"

definition is_vertical_pressure :: "coord \<Rightarrow> bool" where
  "is_vertical_pressure coord =
     are_convertible (case map_of (c_attrs coord) ''units'' of None \<Rightarrow> '''' | Some u \<Rightarrow> u) ''Pa''"

definition is_realization :: "coord \<Rightarrow> bool" where
  "is_realization coord = (map_of (c_attrs coord) ''standard_name'' = Some ''realization'')"

text \<open>
  \<^verbatim>\<open>TRANSLATORS\<close>, in registration order. An entry is the role with the three arguments
  that \<^verbatim>\<open>functools.partial\<close> binds: default name, default units, predicate.
\<close>

type_synonym translators = "(string \<times> string \<times> string \<times> (coord \<Rightarrow> bool)) list"

definition TRANSLATORS :: translators where
  "TRANSLATORS =
     [(''latitude'', ''latitude'', ''degrees_north'', is_latitude),
      (''longitude'', ''longitude'', ''degrees_east'', is_longitude),
      (''forecast_reference_time'', ''time'', ''seconds since 1970-01-01T00:00:00+00:00'',
         is_forecast_reference_time),
      (''forecast_period'', ''step'', ''h'', is_forecast_period),
      (''valid_time'', ''valid_time'', ''seconds since 1970-01-01T00:00:00+00:00'', is_valid_time),
      (''vertical_pressure'', ''level'', ''hPa'', is_vertical_pressure),
      (''realization'', ''number'', ''1'', is_realization)]"

fun translate :: "dataset \<Rightarrow> coord_model \<Rightarrow> translators \<Rightarrow> error + dataset" where
  "translate data coord_model [] = Inr data"
| "translate data coord_model ((cf_name, default_out_name, default_units, is_cf_type) # rest) =
     (case translator default_out_name default_units is_cf_type cf_name data coord_model of
        Inl e \<Rightarrow> Inl e
      | Inr data1 \<Rightarrow> translate data1 coord_model rest)"

text \<open>
  \<^verbatim>\<open>ensure_valid_time_present\<close> mutates \<^verbatim>\<open>data\<close> and returns three names; the model
  returns the dataset with them.
\<close>

definition ensure_valid_time_present ::
  "dataset \<Rightarrow> string \<Rightarrow> error + dataset \<times> string \<times> string \<times> string" where
  "ensure_valid_time_present data valid_time_name =
     (let valid_times = match_values is_valid_time (ds_coords data);
          times = match_values is_forecast_reference_time (ds_coords data);
          steps = match_values is_forecast_period (ds_coords data)
      in case valid_times of
           [] \<Rightarrow>
             (case times of
                [] \<Rightarrow> Inl DerivationError
              | time # _ \<Rightarrow>
                  (case coords_getitem data time of
                     Inl e \<Rightarrow> Inl e
                   | Inr time_coord \<Rightarrow>
                       (case (case steps of
                                step # _ \<Rightarrow>
                                  (case coords_getitem data step of
                                     Inl e \<Rightarrow> Inl e
                                   | Inr step_coord \<Rightarrow>
                                       Inr (step, coords_setitem data valid_time_name
                                                    (coord_add time_coord step_coord)))
                              | [] \<Rightarrow> Inr ('''', coords_setitem data valid_time_name time_coord)) of
                          Inl e \<Rightarrow> Inl e
                        | Inr (step, data1) \<Rightarrow>
                            (case attrs_setitem data1 valid_time_name ''standard_name'' ''time'' of
                               Inl e \<Rightarrow> Inl e
                             | Inr data2 \<Rightarrow> Inr (data2, valid_time_name, time, step)))))
         | valid_time # _ \<Rightarrow> Inr (data, valid_time, '''', ''''))"

definition ensure_valid_time :: "dataset \<Rightarrow> error + dataset" where
  "ensure_valid_time data =
     (case ensure_valid_time_present data ''valid_time'' of
        Inl e \<Rightarrow> Inl e
      | Inr (data1, valid_time, time, step) \<Rightarrow>
          if valid_time \<notin> set (map fst (ds_dims data1)) then
            (case coords_getitem data1 time of
               Inl e \<Rightarrow> Inl e
             | Inr time_coord \<Rightarrow>
                 (case coords_getitem data1 valid_time of
                    Inl e \<Rightarrow> Inl e
                  | Inr valid_time_coord \<Rightarrow>
                      if coord_size time_coord = coord_size valid_time_coord
                      then swap_dims data1 time valid_time
                      else (case coords_getitem data1 step of
                              Inl e \<Rightarrow> Inl e
                            | Inr step_coord \<Rightarrow>
                                if coord_size step_coord = coord_size step_coord
                                then swap_dims data1 step valid_time
                                else Inr data1)))
          else Inr data1)"

section \<open>Datasets used as instances\<close>

text \<open>A single latitude coordinate \<^verbatim>\<open>lat\<close> that records the unit \<^verbatim>\<open>degree_north\<close>.\<close>

definition ex_lat :: dataset where
  "ex_lat =
     \<lparr>ds_dims = [(''y'', 2)],
      ds_coords =
        [(''lat'', \<lparr>c_dims = [''y''], c_shape = [2],
                    c_values = (\<lambda>idx. if idx = [0] then 10 else 20),
                    c_attrs = [(''units'', ''degree_north'')], c_dtype = ''float64''\<rparr>)]\<rparr>"

text \<open>The same coordinate, already called \<^verbatim>\<open>latitude\<close>.\<close>

definition ex_degree_north_named :: dataset where
  "ex_degree_north_named =
     \<lparr>ds_dims = [(''latitude'', 2)],
      ds_coords =
        [(''latitude'', \<lparr>c_dims = [''latitude''], c_shape = [2],
                    c_values = (\<lambda>idx. if idx = [0] then 10 else 20),
                    c_attrs = [(''units'', ''degree_north'')], c_dtype = ''float64''\<rparr>)]\<rparr>"

text \<open>A single latitude coordinate that records the canonical unit.\<close>

definition ex_degrees_north :: dataset where
  "ex_degrees_north =
     \<lparr>ds_dims = [(''y'', 2)],
      ds_coords =
        [(''lat'', \<lparr>c_dims = [''y''], c_shape = [2],
                    c_values = (\<lambda>idx. if idx = [0] then 10 else 20),
                    c_attrs = [(''units'', ''degrees_north'')], c_dtype = ''float64''\<rparr>)]\<rparr>"

text \<open>Two coordinates that both satisfy the latitude predicate.\<close>

definition ex_two_lat :: dataset where
  "ex_two_lat =
     \<lparr>ds_dims = [(''y'', 2)],
      ds_coords =
        [(''lat'', \<lparr>c_dims = [''y''], c_shape = [2],
                    c_values = (\<lambda>idx. if idx = [0] then 10 else 20),
                    c_attrs = [(''units'', ''degrees_north'')], c_dtype = ''float64''\<rparr>),
         (''g0_lat_0'', \<lparr>c_dims = [''y''], c_shape = [2],
                    c_values = (\<lambda>idx. if idx = [0] then 10 else 20),
                    c_attrs = [(''units'', ''degreeN'')], c_dtype = ''float64''\<rparr>)]\<rparr>"

text \<open>Two coordinates that both satisfy the longitude predicate, and no latitude.\<close>

definition ex_two_lon :: dataset where
  "ex_two_lon =
     \<lparr>ds_dims = [(''x'', 2)],
      ds_coords =
        [(''lon'', \<lparr>c_dims = [''x''], c_shape = [2],
                    c_values = (\<lambda>idx. if idx = [0] then 5 else 6),
                    c_attrs = [(''units'', ''degrees_east'')], c_dtype = ''float64''\<rparr>),
         (''g0_lon_1'', \<lparr>c_dims = [''x''], c_shape = [2],
                    c_values = (\<lambda>idx. if idx = [0] then 5 else 6),
                    c_attrs = [(''units'', ''degreeE'')], c_dtype = ''float64''\<rparr>)]\<rparr>"

text \<open>A latitude coordinate \<^verbatim>\<open>lat\<close> beside another coordinate that is called \<^verbatim>\<open>latitude\<close>.\<close>

definition ex_name_taken :: dataset where
  "ex_name_taken =
     \<lparr>ds_dims = [(''y'', 2)],
      ds_coords =
        [(''lat'', \<lparr>c_dims = [''y''], c_shape = [2],
                    c_values = (\<lambda>idx. if idx = [0] then 10 else 20),
                    c_attrs = [(''units'', ''degrees_north'')], c_dtype = ''float64''\<rparr>),
         (''latitude'', \<lparr>c_dims = [''y''], c_shape = [2],
                    c_values = (\<lambda>idx. 0),
                    c_attrs = [], c_dtype = ''int64''\<rparr>)]\<rparr>"

text \<open>A latitude coordinate that already has the canonical name and unit.\<close>

definition ex_canonical :: dataset where
  "ex_canonical =
     \<lparr>ds_dims = [(''latitude'', 2)],
      ds_coords =
        [(''latitude'', \<lparr>c_dims = [''latitude''], c_shape = [2],
                    c_values = (\<lambda>idx. if idx = [0] then 10 else 20),
                    c_attrs = [(''units'', ''degrees_north'')], c_dtype = ''float64''\<rparr>)]\<rparr>"

text \<open>A forecast period called \<^verbatim>\<open>step\<close>, recorded in \<^verbatim>\<open>hours\<close>.\<close>

definition ex_step_hours :: dataset where
  "ex_step_hours =
     \<lparr>ds_dims = [(''step'', 3)],
      ds_coords =
        [(''step'', \<lparr>c_dims = [''step''], c_shape = [3],
                     c_values = (\<lambda>idx. 6 * of_nat (hd idx)),
                     c_attrs = [(''standard_name'', ''forecast_period''), (''units'', ''hours'')],
                     c_dtype = ''int64''\<rparr>)]\<rparr>"

text \<open>A pressure level coordinate recorded in \<^verbatim>\<open>Pa\<close>.\<close>

definition ex_level :: dataset where
  "ex_level =
     \<lparr>ds_dims = [(''lev'', 2)],
      ds_coords =
        [(''lev'', \<lparr>c_dims = [''lev''], c_shape = [2],
                    c_values = (\<lambda>idx. if idx = [0] then 100000 else 85000),
                    c_attrs = [(''units'', ''Pa'')], c_dtype = ''float64''\<rparr>)]\<rparr>"

text \<open>Two reference times and three forecast periods, each along its own dimension.\<close>

definition ex_forecast :: dataset where
  "ex_forecast =
     \<lparr>ds_dims = [(''time'', 2), (''step'', 3)],
      ds_coords =
        [(''time'', \<lparr>c_dims = [''time''], c_shape = [2],
                     c_values = (\<lambda>idx. 86400 * of_nat (hd idx)),
                     c_attrs = [(''standard_name'', ''forecast_reference_time'')],
                     c_dtype = ''datetime64[ns]''\<rparr>),
         (''step'', \<lparr>c_dims = [''step''], c_shape = [3],
                     c_values = (\<lambda>idx. 3600 * of_nat (hd idx)),
                     c_attrs = [(''standard_name'', ''forecast_period'')],
                     c_dtype = ''timedelta64[ns]''\<rparr>)]\<rparr>"

text \<open>The same, with the reference time coordinate named by the empty string.\<close>

definition ex_unnamed :: dataset where
  "ex_unnamed =
     \<lparr>ds_dims = [('''', 2), (''step'', 3)],
      ds_coords =
        [('''', \<lparr>c_dims = [''''], c_shape = [2],
                     c_values = (\<lambda>idx. 86400 * of_nat (hd idx)),
                     c_attrs = [(''standard_name'', ''forecast_reference_time'')],
                     c_dtype = ''datetime64[ns]''\<rparr>),
         (''step'', \<lparr>c_dims = [''step''], c_shape = [3],
                     c_values = (\<lambda>idx. 3600 * of_nat (hd idx)),
                     c_attrs = [(''standard_name'', ''forecast_period'')],
                     c_dtype = ''timedelta64[ns]''\<rparr>)]\<rparr>"

text \<open>A reference time and no forecast period.\<close>

definition ex_reference_only :: dataset where
  "ex_reference_only =
     \<lparr>ds_dims = [(''time'', 2)],
      ds_coords =
        [(''time'', \<lparr>c_dims = [''time''], c_shape = [2],
                     c_values = (\<lambda>idx. 86400 * of_nat (hd idx)),
                     c_attrs = [(''standard_name'', ''forecast_reference_time'')],
                     c_dtype = ''datetime64[ns]''\<rparr>)]\<rparr>"

text \<open>
  A reference time along the dimension \<^verbatim>\<open>time\<close> and a valid time \<^verbatim>\<open>t\<close> that is a
  coordinate but not a dimension.
\<close>

definition ex_valid_time :: dataset where
  "ex_valid_time =
     \<lparr>ds_dims = [(''time'', 2)],
      ds_coords =
        [(''time'', \<lparr>c_dims = [''time''], c_shape = [2],
                     c_values = (\<lambda>idx. 86400 * of_nat (hd idx)),
                     c_attrs = [(''standard_name'', ''forecast_reference_time'')],
                     c_dtype = ''datetime64[ns]''\<rparr>),
         (''t'', \<lparr>c_dims = [''time''], c_shape = [2],
                  c_values = (\<lambda>idx. 86400 * of_nat (hd idx) + 3600),
                  c_attrs = [(''standard_name'', ''time'')],
                  c_dtype = ''datetime64[ns]''\<rparr>)]\<rparr>"

section \<open>The binary64 model\<close>

text \<open>
  \<open>ilog2\<close> is the binary exponent, \<open>binary64 q\<close> lies within half a unit in the last
  place of \<open>q\<close>, and the function gives the floats of some familiar decimals.
\<close>

lemma pow2_pos: "0 < pow2 e"
  by (simp add: pow2_def)

lemma pow2_of_int_le:
  fixes n :: int
  shows "2 ^ j \<le> n \<Longrightarrow> (2::rat) ^ j \<le> rat_of_int n"
  by (metis of_int_le_iff of_int_numeral of_int_power)

lemma of_int_le_pow2:
  fixes n :: int
  shows "n \<le> 2 ^ j \<Longrightarrow> rat_of_int n \<le> (2::rat) ^ j"
  by (metis of_int_le_iff of_int_numeral of_int_power)

lemma ilog2_bounds:
  assumes "q \<noteq> 0"
  shows "pow2 (ilog2 q) \<le> \<bar>q\<bar> \<and> \<bar>q\<bar> < pow2 (ilog2 q + 1)"
proof (cases "1 \<le> \<bar>q\<bar>")
  case True
  define n where "n = \<lfloor>\<bar>q\<bar>\<rfloor>"
  have n1: "1 \<le> n" using True by (simp add: n_def le_floor_iff)
  then have n0: "0 < n" by simp
  define k where "k = bitlen n"
  from bitlen_bounds [OF n0] have b: "2 ^ nat (k - 1) \<le> n" "n < 2 ^ nat k"
    by (simp_all add: k_def)
  have k1: "1 \<le> k" using n0 by (simp add: k_def bitlen_def floorlog_def)
  have i: "ilog2 q = k - 1" using True by (simp add: ilog2_def n_def k_def)
  have lo: "rat_of_int n \<le> \<bar>q\<bar>" by (simp add: n_def)
  have hi: "\<bar>q\<bar> < rat_of_int (n + 1)"
    using floor_correct [of "\<bar>q\<bar>"] by (simp add: n_def)
  have "(2::rat) ^ nat (k - 1) \<le> \<bar>q\<bar>"
    using pow2_of_int_le [OF b(1)] lo by (rule order_trans)
  then have 1: "pow2 (k - 1) \<le> \<bar>q\<bar>" using k1 by (simp add: pow2_def)
  from b(2) have "n + 1 \<le> 2 ^ nat k" by simp
  then have "rat_of_int (n + 1) \<le> (2::rat) ^ nat k" by (rule of_int_le_pow2)
  with hi have "\<bar>q\<bar> < (2::rat) ^ nat k" by (rule less_le_trans)
  then have 2: "\<bar>q\<bar> < pow2 k" using k1 by (simp add: pow2_def)
  from 1 2 i show ?thesis by simp
next
  case False
  define r where "r = 1 / \<bar>q\<bar>"
  have q0: "0 < \<bar>q\<bar>" using assms by simp
  have r1: "1 < r" using False q0 by (simp add: r_def)
  have r0: "0 < r" using r1 by simp
  have qr: "\<bar>q\<bar> = 1 / r" by (simp add: r_def)
  define m where "m = \<lceil>r\<rceil> - 1"
  have m1: "1 \<le> m" using r1 by (simp add: m_def less_ceiling_iff)
  then have m0: "0 < m" by simp
  define k where "k = bitlen m"
  from bitlen_bounds [OF m0] have b: "2 ^ nat (k - 1) \<le> m" "m < 2 ^ nat k"
    by (simp_all add: k_def)
  have k1: "1 \<le> k" using m0 by (simp add: k_def bitlen_def floorlog_def)
  have i: "ilog2 q = - k" using False by (simp add: ilog2_def r_def m_def k_def)
  have lo: "rat_of_int m < r" using ceiling_correct [of r] by (simp add: m_def)
  have hi: "r \<le> rat_of_int (m + 1)" using ceiling_correct [of r] by (simp add: m_def)
  have A: "(2::rat) ^ nat (k - 1) < r"
    using pow2_of_int_le [OF b(1)] lo by (rule le_less_trans)
  from b(2) have "m + 1 \<le> 2 ^ nat k" by simp
  then have "rat_of_int (m + 1) \<le> (2::rat) ^ nat k" by (rule of_int_le_pow2)
  with hi have B: "r \<le> (2::rat) ^ nat k" by (rule order_trans)
  have "1 / (2::rat) ^ nat k \<le> 1 / r"
    using B r0 by (simp add: frac_le)
  then have 1: "pow2 (- k) \<le> \<bar>q\<bar>"
    using k1 by (simp add: pow2_def qr)
  have 2: "\<bar>q\<bar> < pow2 (- k + 1)"
  proof (cases "k = 1")
    case True
    with False show ?thesis by (simp add: pow2_def)
  next
    case k: False
    with k1 have e: "nat (- (- k + 1)) = nat (k - 1)" "\<not> 0 \<le> - k + 1" by simp_all
    have "1 / r < 1 / (2::rat) ^ nat (k - 1)"
      using A by (simp add: frac_less2)
    then show ?thesis using e by (simp add: pow2_def qr)
  qed
  from 1 2 i show ?thesis by simp
qed

lemma round_half_even_nearest: "\<bar>rat_of_int (round_half_even x) - x\<bar> \<le> 1 / 2"
  using floor_correct [of x]
  by (auto simp: round_half_even_def Let_def abs_le_iff)

lemma binary64_nearest:
  assumes "q \<noteq> 0"
  shows "\<bar>binary64 q - q\<bar> \<le> pow2 (max (ilog2 q - 52) (- 1074)) / 2"
proof -
  define e where "e = max (ilog2 q - 52) (- 1074)"
  have p: "0 < pow2 e" by (rule pow2_pos)
  have "binary64 q - q = (rat_of_int (round_half_even (q / pow2 e)) - q / pow2 e) * pow2 e"
    using assms p by (simp add: binary64_def e_def Let_def algebra_simps)
  then have "\<bar>binary64 q - q\<bar>
               = \<bar>rat_of_int (round_half_even (q / pow2 e)) - q / pow2 e\<bar> * pow2 e"
    using p by (simp add: abs_mult)
  also have "\<dots> \<le> 1 / 2 * pow2 e"
    using round_half_even_nearest [of "q / pow2 e"] p by (simp add: mult_right_mono)
  finally show ?thesis by (simp add: e_def)
qed

text \<open>
  The floats \<^verbatim>\<open>0.01\<close>, \<^verbatim>\<open>0.1\<close> and \<^verbatim>\<open>1 / 3.\<close>, an integer that is a float, and the
  two integers next to \<open>2 ^ 53\<close> that are not.
\<close>

lemma binary64_values:
  "binary64 (1 / 100) = 5764607523034235 / 576460752303423488"
  "binary64 (1 / 10) = 3602879701896397 / 36028797018963968"
  "binary64 (1 / 3) = 6004799503160661 / 18014398509481984"
  "binary64 101325 = 101325"
  "binary64 (2 ^ 53 + 1) = 2 ^ 53"
  "binary64 (2 ^ 53 + 3) = 2 ^ 53 + 4"
  by code_simp+

section \<open>The unit converter\<close>

subsection \<open>The loop of \<^verbatim>\<open>simple_conversion_factor\<close>\<close>

text \<open>
  On a table without a zero factor the loop never fails, and \<open>seen\<close> ends as the number
  of matches of the two unit strings, whatever the rounding.
\<close>

lemma scf_loop_seen_aux:
  "0 \<notin> set (map snd rules) \<Longrightarrow>
   map_sum (\<lambda>e. e) snd (scf_loop rnd s t rules (cf, seen)) = Inr (seen + group_matches s t rules)"
proof (induction rules arbitrary: cf seen)
  case Nil
  then show ?case by (simp add: group_matches_def memberships_def)
next
  case (Cons rule rules)
  obtain us f where r: "rule = (us, f)" by (cases rule)
  from Cons.prems r have f: "f \<noteq> 0" and rest: "0 \<notin> set (map snd rules)" by auto
  show ?case
    using Cons.IH [OF rest] f r
    by (simp add: source_step_def target_step_def group_matches_def memberships_def)
qed

lemma scf_loop_seen:
  assumes "0 \<notin> set (map snd rules)"
  shows "\<exists>cf'. scf_loop rnd s t rules (cf, seen) = Inr (cf', seen + group_matches s t rules)"
proof (cases "scf_loop rnd s t rules (cf, seen)")
  case (Inl e)
  with scf_loop_seen_aux [OF assms, of rnd s t cf seen] show ?thesis by simp
next
  case (Inr st)
  with scf_loop_seen_aux [OF assms, of rnd s t cf seen] show ?thesis by (cases st) simp
qed

lemma simple_conversion_factor_cases:
  assumes "0 \<notin> set (map snd rules)"
  shows "(group_matches s t rules \<noteq> 2 \<and> simple_conversion_factor rnd s t rules = Inl ConversionError)
       \<or> (group_matches s t rules = 2 \<and> (\<exists>cf. simple_conversion_factor rnd s t rules = Inr cf))"
proof -
  from scf_loop_seen [OF assms, of rnd s t 1 0]
  obtain cf' where "scf_loop rnd s t rules (1, 0) = Inr (cf', group_matches s t rules)"
    by auto
  then show ?thesis
    by (simp add: simple_conversion_factor_def)
qed

text \<open>Over exact arithmetic the factor is the quotient of the two group factors.\<close>

lemma scf_loop_exact:
  "0 \<notin> set (map snd rules) \<Longrightarrow>
   scf_loop exact s t rules (cf, seen) =
     Inr (cf * group_factor t rules / group_factor s rules, seen + group_matches s t rules)"
proof (induction rules arbitrary: cf seen)
  case Nil
  then show ?case by (simp add: group_matches_def memberships_def group_factor_def)
next
  case (Cons rule rules)
  obtain us f where r: "rule = (us, f)" by (cases rule)
  from Cons.prems r have f: "f \<noteq> 0" and rest: "0 \<notin> set (map snd rules)" by auto
  show ?case
    using Cons.IH [OF rest] f r
    by (auto simp: source_step_def target_step_def group_matches_def memberships_def
        group_factor_def exact_def)
qed

lemma simple_conversion_factor_exact:
  assumes "0 \<notin> set (map snd rules)"
  shows "simple_conversion_factor exact s t rules =
           (if group_matches s t rules \<noteq> 2 then Inl ConversionError
            else Inr (group_factor t rules / group_factor s rules))"
  by (simp add: simple_conversion_factor_def scf_loop_exact [OF assms])

lemma group_factor_nonzero:
  "0 \<notin> set (map snd rules) \<Longrightarrow> group_factor u rules \<noteq> 0"
  by (induction rules) (auto simp: group_factor_def)

subsection \<open>The pressure table\<close>

lemma pressure_nonzero: "0 \<notin> set (map snd PRESSURE_CONVERSION_RULES)"
  by (simp add: PRESSURE_CONVERSION_RULES_def)

text \<open>No unit name of the pressure table is in two groups.\<close>

lemma memberships_pressure: "memberships u PRESSURE_CONVERSION_RULES \<le> 1"
  by (auto simp: memberships_def PRESSURE_CONVERSION_RULES_def)

lemma group_factor_pressure_all:
  "\<forall>rule\<in>set PRESSURE_CONVERSION_RULES. \<forall>u\<in>set (fst rule).
     group_factor u PRESSURE_CONVERSION_RULES = snd rule \<and> memberships u PRESSURE_CONVERSION_RULES = 1"
  by (simp add: PRESSURE_CONVERSION_RULES_def group_factor_def memberships_def)

text \<open>
  Two names of one group: the group's iteration divides by its factor and multiplies by
  it again, and in binary64 that product is 1 for each of the five factors.
\<close>

lemma same_group_factor_all:
  "\<forall>rule\<in>set PRESSURE_CONVERSION_RULES. \<forall>a\<in>set (fst rule). \<forall>b\<in>set (fst rule).
     simple_conversion_factor rnd a b PRESSURE_CONVERSION_RULES
       = Inr (rnd (rnd (1 / snd rule) * snd rule))"
  by (simp add: PRESSURE_CONVERSION_RULES_def simple_conversion_factor_def source_step_def
      target_step_def)

lemma same_group_binary64:
  "\<forall>rule\<in>set PRESSURE_CONVERSION_RULES. binary64 (binary64 (1 / snd rule) * snd rule) = 1"
  by code_simp

subsection \<open>\<^verbatim>\<open>convert_units\<close>\<close>

lemma convert_units_with_unmatched:
  assumes "a \<noteq> b" and "group_matches a b PRESSURE_CONVERSION_RULES \<noteq> 2"
  shows "convert_units_with rnd mul x a b = Inl ConversionError"
  using simple_conversion_factor_cases [OF pressure_nonzero, of a b rnd] assms
  by (auto simp: convert_units_with_def)

text \<open>\<^verbatim>\<open>convert_units\<close> raises nothing but \<^verbatim>\<open>ConversionError\<close>.\<close>

lemma convert_units_with_error:
  assumes "convert_units_with rnd mul x a b = Inl e"
  shows "e = ConversionError"
  using simple_conversion_factor_cases [OF pressure_nonzero, of a b rnd] assms
  by (auto simp: convert_units_with_def split: if_splits)

lemma convert_units_same_group:
  assumes x: "binary64 x = x"
    and g: "(us, f) \<in> set PRESSURE_CONVERSION_RULES" "a \<in> set us" "b \<in> set us"
  shows "convert_units x a b = Inr x"
proof -
  from g same_group_factor_all [of binary64] same_group_binary64
  have "simple_conversion_factor binary64 a b PRESSURE_CONVERSION_RULES = Inr 1"
    by fastforce
  then show ?thesis
    by (simp add: convert_units_def convert_units_with_def float_times_def x)
qed

lemma convert_units_exact_roundtrip:
  assumes "convert_units_exact x b a = Inr y"
  shows "convert_units_exact y a b = Inr x"
proof (cases "a = b")
  case True
  with assms show ?thesis
    by (simp add: convert_units_exact_def convert_units_with_def)
next
  case False
  let ?P = PRESSURE_CONVERSION_RULES
  have nz: "group_factor a ?P \<noteq> 0" "group_factor b ?P \<noteq> 0"
    by (simp_all add: group_factor_nonzero [OF pressure_nonzero])
  from assms False have m: "group_matches b a ?P = 2"
    and y: "y = x * (group_factor a ?P / group_factor b ?P)"
    by (auto simp: convert_units_exact_def convert_units_with_def float_times_def exact_def
        simple_conversion_factor_exact [OF pressure_nonzero] split: if_splits)
  from m have m': "group_matches a b ?P = 2"
    by (simp add: group_matches_def)
  show ?thesis
    using False m' nz
    by (simp add: convert_units_exact_def convert_units_with_def float_times_def exact_def
        simple_conversion_factor_exact [OF pressure_nonzero] y)
qed

subsection \<open>Claims about the unit converter\<close>

text \<open>
  C5. \<^verbatim>\<open>convert_units(1, 'hPa', 'Pa')\<close> returns 0.01 and \<^verbatim>\<open>convert_units(1, 'Pa', 'hPa')\<close>
  returns 100. The float \<^verbatim>\<open>0.01\<close> is the binary64 value nearest to 1/100; over exact
  arithmetic the two results are 1/100 and 100 (third and fourth conjunct). The factor
  comes from the pressure table, the source unit of \<^verbatim>\<open>simple_conversion_factor\<close>
  contributing a division by the factor of its group and the target unit a
  multiplication by the factor of its group: the fifth and sixth conjunct give the two
  factors as the program computes them, the last one gives the factor of any two unit
  names of the table over exact arithmetic.
\<close>

theorem convert_units_hPa_Pa:
  "convert_units 1 ''hPa'' ''Pa'' = Inr (binary64 (1 / 100))
   \<and> convert_units 1 ''Pa'' ''hPa'' = Inr 100
   \<and> convert_units_exact 1 ''hPa'' ''Pa'' = Inr (1 / 100)
   \<and> convert_units_exact 1 ''Pa'' ''hPa'' = Inr 100
   \<and> simple_conversion_factor binary64 ''hPa'' ''Pa'' PRESSURE_CONVERSION_RULES
        = Inr (binary64 (binary64 (1 * 1) / 100))
   \<and> simple_conversion_factor binary64 ''Pa'' ''hPa'' PRESSURE_CONVERSION_RULES
        = Inr (binary64 (binary64 (1 / 1) * 100))
   \<and> ((us, fs) \<in> set PRESSURE_CONVERSION_RULES \<and> source_units \<in> set us
        \<and> (ut, ft) \<in> set PRESSURE_CONVERSION_RULES \<and> target_units \<in> set ut \<longrightarrow>
      simple_conversion_factor exact source_units target_units PRESSURE_CONVERSION_RULES
        = Inr (ft / fs))"
proof (intro conjI impI)
  show "convert_units 1 ''hPa'' ''Pa'' = Inr (binary64 (1 / 100))"
    by code_simp
  show "convert_units 1 ''Pa'' ''hPa'' = Inr 100"
    by code_simp
  show "convert_units_exact 1 ''hPa'' ''Pa'' = Inr (1 / 100)"
    by code_simp
  show "convert_units_exact 1 ''Pa'' ''hPa'' = Inr 100"
    by code_simp
  show "simple_conversion_factor binary64 ''hPa'' ''Pa'' PRESSURE_CONVERSION_RULES
        = Inr (binary64 (binary64 (1 * 1) / 100))"
    by (simp add: PRESSURE_CONVERSION_RULES_def simple_conversion_factor_def source_step_def
        target_step_def)
  show "simple_conversion_factor binary64 ''Pa'' ''hPa'' PRESSURE_CONVERSION_RULES
        = Inr (binary64 (binary64 (1 / 1) * 100))"
    by (simp add: PRESSURE_CONVERSION_RULES_def simple_conversion_factor_def source_step_def
        target_step_def)
next
  assume h: "(us, fs) \<in> set PRESSURE_CONVERSION_RULES \<and> source_units \<in> set us
        \<and> (ut, ft) \<in> set PRESSURE_CONVERSION_RULES \<and> target_units \<in> set ut"
  from h group_factor_pressure_all
  have s: "group_factor source_units PRESSURE_CONVERSION_RULES = fs"
          "memberships source_units PRESSURE_CONVERSION_RULES = 1"
    by fastforce+
  from h group_factor_pressure_all
  have t: "group_factor target_units PRESSURE_CONVERSION_RULES = ft"
          "memberships target_units PRESSURE_CONVERSION_RULES = 1"
    by fastforce+
  show "simple_conversion_factor exact source_units target_units PRESSURE_CONVERSION_RULES
          = Inr (ft / fs)"
    by (simp add: simple_conversion_factor_exact [OF pressure_nonzero] group_matches_def s t)
qed

text \<open>The last conjunct of C5 at \<^verbatim>\<open>pascal\<close> and \<^verbatim>\<open>dbar\<close>: the factor is 10000 / 1.\<close>

theorem convert_units_hPa_Pa_witness:
  "([''Pa'', ''pascal''], 1) \<in> set PRESSURE_CONVERSION_RULES
   \<and> ''pascal'' \<in> set [''Pa'', ''pascal'']
   \<and> ([''decibar'', ''dbar''], 10000) \<in> set PRESSURE_CONVERSION_RULES
   \<and> ''dbar'' \<in> set [''decibar'', ''dbar'']
   \<and> simple_conversion_factor exact ''pascal'' ''dbar'' PRESSURE_CONVERSION_RULES = Inr 10000"
proof -
  have h: "([''Pa'', ''pascal''], 1) \<in> set PRESSURE_CONVERSION_RULES
     \<and> ''pascal'' \<in> set [''Pa'', ''pascal'']
     \<and> ([''decibar'', ''dbar''], 10000) \<in> set PRESSURE_CONVERSION_RULES
     \<and> ''dbar'' \<in> set [''decibar'', ''dbar'']"
    by (simp add: PRESSURE_CONVERSION_RULES_def)
  show ?thesis
    using h convert_units_hPa_Pa [of "[''Pa'', ''pascal'']" 1 "''pascal''"
        "[''decibar'', ''dbar'']" 10000 "''dbar''"]
    by simp
qed

text \<open>
  C6, as stated: for every pair of unit strings \<open>a\<close>, \<open>b\<close> for which conversion succeeds
  and every value \<open>x\<close>, \<^verbatim>\<open>convert_units(convert_units(x, b, a), a, b) == x\<close>. It fails at
  \<open>x = 7\<close>, \<open>a = Pa\<close>, \<open>b = hPa\<close>: the inner call gives the float 0.07, and 0.07 * 100.0 is
  7.000000000000001 in binary64.
\<close>

theorem convert_units_roundtrip_counterexample:
  "convert_units 7 ''hPa'' ''Pa'' = Inr (1261007895663739 / 18014398509481984)
   \<and> convert_units (1261007895663739 / 18014398509481984) ''Pa'' ''hPa''
       = Inr (7881299347898369 / 1125899906842624)
   \<and> convert_units (1261007895663739 / 18014398509481984) ''Pa'' ''hPa'' \<noteq> Inr 7"
  by code_simp

text \<open>
  C6, amended. For every pair of unit strings \<open>a\<close>, \<open>b\<close> for which conversion succeeds and
  every float \<open>x\<close>, the round trip yields \<open>x\<close> again when \<open>a\<close> and \<open>b\<close> are the same
  string or two names of one group of the pressure table. For names of different groups
  the two factors are reciprocal before rounding only: the round trip yields \<open>x\<close> over
  exact arithmetic (second conjunct), not always in binary64.
\<close>

theorem convert_units_roundtrip:
  "(binary64 x = x
      \<and> (a = b \<or> ((us, f) \<in> set PRESSURE_CONVERSION_RULES \<and> a \<in> set us \<and> b \<in> set us))
      \<and> convert_units x b a = Inr y \<longrightarrow> convert_units y a b = Inr x)
   \<and> (convert_units_exact x' b' a' = Inr y' \<longrightarrow> convert_units_exact y' a' b' = Inr x')"
proof (intro conjI impI)
  assume h: "binary64 x = x
      \<and> (a = b \<or> ((us, f) \<in> set PRESSURE_CONVERSION_RULES \<and> a \<in> set us \<and> b \<in> set us))
      \<and> convert_units x b a = Inr y"
  show "convert_units y a b = Inr x"
  proof (cases "a = b")
    case True
    with h show ?thesis by (simp add: convert_units_def convert_units_with_def)
  next
    case False
    with h have g: "(us, f) \<in> set PRESSURE_CONVERSION_RULES" "a \<in> set us" "b \<in> set us"
      and x: "binary64 x = x" by auto
    from h convert_units_same_group [OF x g(1) g(3) g(2)] have "y = x" by simp
    with convert_units_same_group [OF x g] show ?thesis by simp
  qed
next
  assume "convert_units_exact x' b' a' = Inr y'"
  then show "convert_units_exact y' a' b' = Inr x'" by (rule convert_units_exact_roundtrip)
qed

text \<open>
  The amended C6 at 7 between \<^verbatim>\<open>Pa\<close> and \<^verbatim>\<open>pascal\<close> in binary64, and at 7 between
  \<^verbatim>\<open>Pa\<close> and \<^verbatim>\<open>hPa\<close> over exact arithmetic.
\<close>

theorem convert_units_roundtrip_witness:
  "binary64 7 = 7 \<and> ([''Pa'', ''pascal''], 1) \<in> set PRESSURE_CONVERSION_RULES
   \<and> ''Pa'' \<in> set [''Pa'', ''pascal''] \<and> ''pascal'' \<in> set [''Pa'', ''pascal'']
   \<and> convert_units 7 ''pascal'' ''Pa'' = Inr 7 \<and> convert_units 7 ''Pa'' ''pascal'' = Inr 7
   \<and> convert_units_exact 7 ''hPa'' ''Pa'' = Inr (7 / 100)
   \<and> convert_units_exact (7 / 100) ''Pa'' ''hPa'' = Inr 7"
proof -
  have b: "binary64 7 = 7" by code_simp
  have m: "([''Pa'', ''pascal''], 1) \<in> set PRESSURE_CONVERSION_RULES
     \<and> ''Pa'' \<in> set [''Pa'', ''pascal''] \<and> ''pascal'' \<in> set [''Pa'', ''pascal'']"
    by (simp add: PRESSURE_CONVERSION_RULES_def)
  have c: "convert_units 7 ''pascal'' ''Pa'' = Inr 7" by code_simp
  have e: "convert_units_exact 7 ''hPa'' ''Pa'' = Inr (7 / 100)" by code_simp
  show ?thesis
    using b m c e
      convert_units_roundtrip [of 7 "''Pa''" "''pascal''" "[''Pa'', ''pascal'']" 1 7 7
        "''hPa''" "''Pa''" "7 / 100"]
    by simp
qed

text \<open>
  C7. \<^verbatim>\<open>simple_conversion_factor\<close> raises \<^verbatim>\<open>ConversionError\<close> exactly when the number
  of group membership matches of the source and target unit strings across the whole
  rule table differs from two: for every rule table without a zero factor (first
  conjunct) and so for the pressure table (second conjunct). Consequently, for distinct
  unit strings of which at least one belongs to no group of the pressure table,
  \<^verbatim>\<open>are_convertible\<close> is false and \<^verbatim>\<open>convert_units\<close> raises \<^verbatim>\<open>ConversionError\<close> for any
  value; \<^verbatim>\<open>m\<close> against \<^verbatim>\<open>Pa\<close> is such a pair.
\<close>

theorem simple_conversion_factor_raises_iff:
  "(0 \<notin> set (map snd rules) \<longrightarrow>
      (simple_conversion_factor rnd s t rules = Inl ConversionError)
        = (group_matches s t rules \<noteq> 2))
   \<and> (simple_conversion_factor rnd s t PRESSURE_CONVERSION_RULES = Inl ConversionError)
        = (group_matches s t PRESSURE_CONVERSION_RULES \<noteq> 2)
   \<and> (a \<noteq> b \<and> (memberships a PRESSURE_CONVERSION_RULES = 0
                   \<or> memberships b PRESSURE_CONVERSION_RULES = 0) \<longrightarrow>
        \<not> are_convertible a b \<and> convert_units x a b = Inl ConversionError)
   \<and> \<not> are_convertible ''m'' ''Pa'' \<and> convert_units x ''m'' ''Pa'' = Inl ConversionError"
proof (intro conjI impI)
  assume nz: "0 \<notin> set (map snd rules)"
  show "(simple_conversion_factor rnd s t rules = Inl ConversionError)
          = (group_matches s t rules \<noteq> 2)"
    using simple_conversion_factor_cases [OF nz, of s t rnd] by auto
next
  show "(simple_conversion_factor rnd s t PRESSURE_CONVERSION_RULES = Inl ConversionError)
          = (group_matches s t PRESSURE_CONVERSION_RULES \<noteq> 2)"
    using simple_conversion_factor_cases [OF pressure_nonzero, of s t rnd] by auto
next
  assume h: "a \<noteq> b \<and> (memberships a PRESSURE_CONVERSION_RULES = 0
                   \<or> memberships b PRESSURE_CONVERSION_RULES = 0)"
  have "group_matches a b PRESSURE_CONVERSION_RULES \<noteq> 2"
    using h memberships_pressure [of a] memberships_pressure [of b]
    by (auto simp: group_matches_def)
  with h have *: "\<And>y. convert_units y a b = Inl ConversionError"
    by (simp add: convert_units_def convert_units_with_unmatched)
  show "\<not> are_convertible a b" by (simp add: are_convertible_def *)
  show "convert_units x a b = Inl ConversionError" by (rule *)
next
  have m: "group_matches ''m'' ''Pa'' PRESSURE_CONVERSION_RULES \<noteq> 2"
    by (simp add: group_matches_def memberships_def PRESSURE_CONVERSION_RULES_def)
  then have *: "\<And>y. convert_units y ''m'' ''Pa'' = Inl ConversionError"
    by (simp add: convert_units_def convert_units_with_unmatched)
  show "\<not> are_convertible ''m'' ''Pa''" by (simp add: are_convertible_def *)
  show "convert_units x ''m'' ''Pa'' = Inl ConversionError" by (rule *)
qed

text \<open>
  C7 on the pressure table at \<^verbatim>\<open>m\<close> and \<^verbatim>\<open>Pa\<close> (one match: the error), at \<^verbatim>\<open>hPa\<close> and
  \<^verbatim>\<open>Pa\<close> (two matches: a factor) and at the value 5, and on a table in which the name
  \<^verbatim>\<open>x\<close> is in two groups (three matches: the error).
\<close>

theorem simple_conversion_factor_raises_iff_witness:
  "0 \<notin> set (map snd PRESSURE_CONVERSION_RULES)
   \<and> group_matches ''m'' ''Pa'' PRESSURE_CONVERSION_RULES = 1
   \<and> simple_conversion_factor binary64 ''m'' ''Pa'' PRESSURE_CONVERSION_RULES = Inl ConversionError
   \<and> group_matches ''hPa'' ''Pa'' PRESSURE_CONVERSION_RULES = 2
   \<and> simple_conversion_factor binary64 ''hPa'' ''Pa'' PRESSURE_CONVERSION_RULES \<noteq> Inl ConversionError
   \<and> 0 \<notin> set (map snd [([''x''], 2 :: rat), ([''x'', ''y''], 3)])
   \<and> group_matches ''x'' ''y'' [([''x''], 2), ([''x'', ''y''], 3)] = 3
   \<and> simple_conversion_factor binary64 ''x'' ''y'' [([''x''], 2), ([''x'', ''y''], 3)]
        = Inl ConversionError
   \<and> ''m'' \<noteq> ''Pa'' \<and> memberships ''m'' PRESSURE_CONVERSION_RULES = 0
   \<and> \<not> are_convertible ''m'' ''Pa'' \<and> convert_units 5 ''m'' ''Pa'' = Inl ConversionError"
proof -
  have h: "0 \<notin> set (map snd PRESSURE_CONVERSION_RULES)"
    by (rule pressure_nonzero)
  have m: "group_matches ''m'' ''Pa'' PRESSURE_CONVERSION_RULES = 1"
    "group_matches ''hPa'' ''Pa'' PRESSURE_CONVERSION_RULES = 2"
    "''m'' \<noteq> ''Pa''" "memberships ''m'' PRESSURE_CONVERSION_RULES = 0"
    by (simp_all add: group_matches_def memberships_def PRESSURE_CONVERSION_RULES_def)
  have k: "0 \<notin> set (map snd [([''x''], 2 :: rat), ([''x'', ''y''], 3)])"
    "group_matches ''x'' ''y'' [([''x''], 2), ([''x'', ''y''], 3)] = 3"
    by (simp_all add: group_matches_def memberships_def)
  show ?thesis
    using h m k
      simple_conversion_factor_raises_iff [of PRESSURE_CONVERSION_RULES binary64 "''m''" "''Pa''"
        "''m''" "''Pa''" 5]
      simple_conversion_factor_raises_iff [of PRESSURE_CONVERSION_RULES binary64 "''hPa''" "''Pa''"
        "''m''" "''Pa''" 5]
      simple_conversion_factor_raises_iff [of "[([''x''], 2), ([''x'', ''y''], 3)]" binary64
        "''x''" "''y''" "''m''" "''Pa''" 5]
    by simp
qed

section \<open>The coordinate translator\<close>

subsection \<open>The container operations\<close>

lemma coords_setitem_twice:
  "coords_setitem (coords_setitem data name c) name c' = coords_setitem data name c'"
  by (simp add: coords_setitem_def)

lemma coords_getitem_setitem:
  "coords_getitem (coords_setitem data name c) name = Inr c"
  by (simp add: coords_getitem_def coords_setitem_def update_conv')

lemma attrs_setitem_setitem:
  "attrs_setitem (coords_setitem data name c) name key v
     = Inr (coords_setitem data name (c\<lparr>c_attrs := AList.update key v (c_attrs c)\<rparr>))"
  by (simp add: attrs_setitem_def coords_getitem_setitem coords_setitem_twice)

text \<open>
  Between two coordinates over the same dimensions the sum is taken position by position.
\<close>

lemma position_nth: "distinct ds \<Longrightarrow> i < length ds \<Longrightarrow> position (ds ! i) ds = i"
proof (induction ds arbitrary: i)
  case Nil
  then show ?case by simp
next
  case (Cons d ds)
  then show ?case by (cases i) auto
qed

lemma along_same:
  assumes "distinct ds" and "length idx = length ds"
  shows "along ds ds idx = idx"
  using assms by (auto simp: along_def position_nth intro!: nth_equalityI)

lemma coord_add_same_dims:
  assumes "c_dims a = c_dims b" and "distinct (c_dims a)" and "length idx = length (c_dims a)"
  shows "c_dims (coord_add a b) = c_dims a
         \<and> c_values (coord_add a b) idx = c_values a idx + c_values b idx"
proof -
  have e: "filter (\<lambda>p. fst p \<notin> set (c_dims b)) (zip (c_dims b) (c_shape b)) = []"
    by (auto simp: filter_empty_conv dest: set_zip_leftD)
  show ?thesis
    using assms along_same [of "c_dims b" idx]
    by (simp add: coord_add_def Let_def e)
qed

lemma rename_name_same: "map (rename_name name name) ds = ds"
  by (rule map_idI) (simp add: rename_name_def)

text \<open>Renaming a coordinate to the name it has changes nothing.\<close>

lemma rename_same: "rename data name name = data"
proof -
  have d: "map (\<lambda>p. (rename_name name name (fst p), snd p)) (ds_dims data) = ds_dims data"
    by (rule map_idI) (simp add: rename_name_def)
  have c: "map (\<lambda>p. (rename_name name name (fst p), rename_dims name name (snd p))) (ds_coords data)
             = ds_coords data"
    by (rule map_idI) (simp add: rename_name_def rename_dims_def rename_name_same)
  show ?thesis
    by (simp add: rename_def d c)
qed

lemma map_of_rename:
  "map_of cs old = Some c \<Longrightarrow> new \<notin> set (map fst cs) \<or> old = new \<Longrightarrow>
   map_of (map (\<lambda>p. (rename_name old new (fst p), f (snd p))) cs) new = Some (f c)"
  by (induction cs) (auto simp: rename_name_def)

lemma coords_getitem_rename:
  "map_of (ds_coords data) old = Some c \<Longrightarrow>
   new \<notin> set (map fst (ds_coords data)) \<or> old = new \<Longrightarrow>
   coords_getitem (rename data old new) new = Inr (rename_dims old new c)"
  by (simp add: coords_getitem_def rename_def map_of_rename)

subsection \<open>\<^verbatim>\<open>match_values\<close>\<close>

lemma match_values_filter:
  "match_values f m = map fst (filter (\<lambda>p. f (snd p)) m)"
  by (induction m) auto

lemma match_values_names:
  "name \<in> set (match_values f m) \<Longrightarrow> name \<in> set (map fst m)"
  by (auto simp: match_values_filter)

lemma match_values_lookup:
  assumes "match_values f m = name # names"
  shows "\<exists>c. map_of m name = Some c"
proof -
  from assms have "name \<in> set (match_values f m)" by simp
  then have "name \<in> fst ` set m" by (auto simp: match_values_filter)
  then show ?thesis by (cases "map_of m name") (auto simp: map_of_eq_None_iff)
qed

subsection \<open>Predicates and defaults\<close>

lemmas time_predicate_defs =
  is_valid_time_def is_forecast_reference_time_def is_forecast_period_def

lemma is_valid_time_tagged:
  "is_valid_time (c\<lparr>c_attrs := AList.update ''standard_name'' ''time'' (c_attrs c)\<rparr>)"
  by (simp add: is_valid_time_def update_conv')

lemma is_vertical_pressure_Pa [simp]:
  "is_vertical_pressure
     \<lparr>c_dims = d, c_shape = s, c_values = v, c_attrs = [(''units'', ''Pa'')], c_dtype = t\<rparr>"
  by (simp add: is_vertical_pressure_def are_convertible_def convert_units_def
      convert_units_with_def)

lemma model_get_default: "model_get COORD_MODEL cf_type key fallback = fallback"
  by (simp add: model_get_def COORD_MODEL_def)

text \<open>No rule table converts between the two spellings of the latitude unit.\<close>

lemma degree_north_unmatched:
  "convert_units_with rnd mul x ''degrees_north'' ''degree_north'' = Inl ConversionError"
  by (rule convert_units_with_unmatched)
     (simp_all add: group_matches_def memberships_def PRESSURE_CONVERSION_RULES_def)

subsection \<open>Claims about \<^verbatim>\<open>translator\<close> and \<^verbatim>\<open>translate\<close>\<close>

text \<open>
  C1, as stated: for every dataset containing exactly one coordinate whose \<^verbatim>\<open>units\<close>
  attribute is \<^verbatim>\<open>degree_north\<close> (and no other coordinate matching the latitude predicate
  or named \<^verbatim>\<open>latitude\<close>), \<^verbatim>\<open>translate\<close> renames that coordinate to \<^verbatim>\<open>latitude\<close>, rewrites
  its unit attribute to \<^verbatim>\<open>degrees_north\<close>, leaves its values unchanged and raises no
  error. On the dataset \<open>ex_lat\<close>, whose only coordinate is \<^verbatim>\<open>lat\<close> with that unit,
  \<^verbatim>\<open>translate\<close> raises \<^verbatim>\<open>ConversionError\<close>.
\<close>

theorem translate_degree_north_counterexample:
  "match_values is_latitude (ds_coords ex_lat) = [''lat'']
   \<and> ''latitude'' \<notin> set (map fst (ds_coords ex_lat))
   \<and> map_sum id c_attrs (coords_getitem ex_lat ''lat'') = Inr [(''units'', ''degree_north'')]
   \<and> translate ex_lat COORD_MODEL TRANSLATORS = Inl ConversionError"
  by (simp add: ex_lat_def TRANSLATORS_def COORD_MODEL_def translator_def model_get_def
      is_latitude_def VALID_LAT_UNITS_def rename_def rename_name_def rename_dims_def
      coords_getitem_def convert_units_with_def simple_conversion_factor_def
      PRESSURE_CONVERSION_RULES_def source_step_def target_step_def)

text \<open>
  C1, amended. For every dataset in which exactly one coordinate matches the latitude
  predicate and no other coordinate is named \<^verbatim>\<open>latitude\<close>: if that coordinate records the
  unit \<^verbatim>\<open>degree_north\<close>, \<^verbatim>\<open>translate\<close> (with the default coordinate model) raises
  \<^verbatim>\<open>ConversionError\<close>, because \<^verbatim>\<open>convert_units\<close> finds no rule from \<^verbatim>\<open>degree_north\<close> to
  \<^verbatim>\<open>degrees_north\<close>, and returns no dataset; if it records \<^verbatim>\<open>degrees_north\<close> already,
  the latitude step returns a dataset in which the coordinate is called \<^verbatim>\<open>latitude\<close>,
  has its values unchanged and still records \<^verbatim>\<open>degrees_north\<close> under \<^verbatim>\<open>units\<close>.
\<close>

theorem translate_degree_north:
  "match_values is_latitude (ds_coords data) = [m]
   \<and> map_of (ds_coords data) m = Some c
   \<and> (''latitude'' \<notin> set (map fst (ds_coords data)) \<or> m = ''latitude'') \<longrightarrow>
     (map_of (c_attrs c) ''units'' = Some ''degree_north'' \<longrightarrow>
        translate data COORD_MODEL TRANSLATORS = Inl ConversionError)
     \<and> (map_of (c_attrs c) ''units'' = Some ''degrees_north'' \<longrightarrow>
          (\<exists>data1 c1.
             translator ''latitude'' ''degrees_north'' is_latitude ''latitude'' data COORD_MODEL
               = Inr data1
           \<and> coords_getitem data1 ''latitude'' = Inr c1
           \<and> c_values c1 = c_values c
           \<and> map_of (c_attrs c1) ''units'' = Some ''degrees_north''))"
proof (intro impI conjI)
  assume h: "match_values is_latitude (ds_coords data) = [m]
   \<and> map_of (ds_coords data) m = Some c
   \<and> (''latitude'' \<notin> set (map fst (ds_coords data)) \<or> m = ''latitude'')"
  then have one: "match_values is_latitude (ds_coords data) = [m]"
    and c: "map_of (ds_coords data) m = Some c"
    and free: "''latitude'' \<notin> set (map fst (ds_coords data)) \<or> m = ''latitude''" by simp_all
  from free
  have nc: "\<not> list_ex (\<lambda>name. name = ''latitude'' \<and> name \<noteq> m) (map fst (ds_coords data))"
    by (auto simp: list_ex_iff)
  have g: "coords_getitem (rename data m ''latitude'') ''latitude''
             = Inr (rename_dims m ''latitude'' c)"
    by (rule coords_getitem_rename [OF c free])
  {
    assume u: "map_of (c_attrs c) ''units'' = Some ''degree_north''"
    have "translator ''latitude'' ''degrees_north'' is_latitude ''latitude'' data COORD_MODEL
            = Inl ConversionError"
      using one nc g u
      by (simp add: translator_def model_get_default rename_dims_def degree_north_unmatched)
    then show "translate data COORD_MODEL TRANSLATORS = Inl ConversionError"
      by (simp add: TRANSLATORS_def)
  next
    assume u: "map_of (c_attrs c) ''units'' = Some ''degrees_north''"
    let ?c1 = "(rename_dims m ''latitude'' c)\<lparr>c_attrs :=
                 AList.update ''untis'' ''degrees_north'' (c_attrs (rename_dims m ''latitude'' c))\<rparr>"
    let ?d = "coords_setitem (rename data m ''latitude'') ''latitude'' ?c1"
    have r: "translator ''latitude'' ''degrees_north'' is_latitude ''latitude'' data COORD_MODEL
               = Inr ?d"
      using one nc g u
      by (simp add: translator_def model_get_default rename_dims_def convert_units_with_def
          attrs_setitem_setitem Let_def)
    have v: "c_values ?c1 = c_values c" by (simp add: rename_dims_def)
    have a: "map_of (c_attrs ?c1) ''units'' = Some ''degrees_north''"
      using u by (simp add: rename_dims_def update_conv')
    show "\<exists>data1 c1.
             translator ''latitude'' ''degrees_north'' is_latitude ''latitude'' data COORD_MODEL
               = Inr data1
           \<and> coords_getitem data1 ''latitude'' = Inr c1
           \<and> c_values c1 = c_values c
           \<and> map_of (c_attrs c1) ''units'' = Some ''degrees_north''"
      using r v a coords_getitem_setitem [of "rename data m ''latitude''" "''latitude''" ?c1]
      by blast
  }
qed

text \<open>
  The amended C1 on \<open>ex_degree_north_named\<close> (the error) and on \<open>ex_degrees_north\<close> (the
  rename, with the two values 10 and 20 in place).
\<close>

theorem translate_degree_north_witness:
  "match_values is_latitude (ds_coords ex_degree_north_named) = [''latitude'']
   \<and> map_sum id c_attrs (coords_getitem ex_degree_north_named ''latitude'')
        = Inr [(''units'', ''degree_north'')]
   \<and> translate ex_degree_north_named COORD_MODEL TRANSLATORS = Inl ConversionError
   \<and> match_values is_latitude (ds_coords ex_degrees_north) = [''lat'']
   \<and> ''latitude'' \<notin> set (map fst (ds_coords ex_degrees_north))
   \<and> map_sum id c_attrs (coords_getitem ex_degrees_north ''lat'')
        = Inr [(''units'', ''degrees_north'')]
   \<and> (\<exists>data1 c1.
         translator ''latitude'' ''degrees_north'' is_latitude ''latitude'' ex_degrees_north
           COORD_MODEL = Inr data1
       \<and> coords_getitem data1 ''latitude'' = Inr c1
       \<and> c_values c1 [0] = 10 \<and> c_values c1 [1] = 20)"
proof -
  let ?c = "\<lparr>c_dims = [''latitude''], c_shape = [2],
             c_values = (\<lambda>idx. if idx = [0] then 10 else 20),
             c_attrs = [(''units'', ''degree_north'')], c_dtype = ''float64''\<rparr>"
  let ?c' = "\<lparr>c_dims = [''y''], c_shape = [2],
             c_values = (\<lambda>idx. if idx = [0] then 10 else 20),
             c_attrs = [(''units'', ''degrees_north'')], c_dtype = ''float64''\<rparr>"
  have a: "match_values is_latitude (ds_coords ex_degree_north_named) = [''latitude'']
     \<and> map_of (ds_coords ex_degree_north_named) ''latitude'' = Some ?c
     \<and> (''latitude'' \<notin> set (map fst (ds_coords ex_degree_north_named))
        \<or> ''latitude'' = ''latitude'')"
    by (simp add: ex_degree_north_named_def is_latitude_def VALID_LAT_UNITS_def)
  have b: "match_values is_latitude (ds_coords ex_degrees_north) = [''lat'']
     \<and> map_of (ds_coords ex_degrees_north) ''lat'' = Some ?c'
     \<and> (''latitude'' \<notin> set (map fst (ds_coords ex_degrees_north)) \<or> ''lat'' = ''latitude'')"
    by (simp add: ex_degrees_north_def is_latitude_def VALID_LAT_UNITS_def)
  have ra: "translate ex_degree_north_named COORD_MODEL TRANSLATORS = Inl ConversionError"
    using a translate_degree_north [of ex_degree_north_named "''latitude''" ?c] by simp
  have rb: "\<exists>data1 c1.
         translator ''latitude'' ''degrees_north'' is_latitude ''latitude'' ex_degrees_north
           COORD_MODEL = Inr data1
       \<and> coords_getitem data1 ''latitude'' = Inr c1
       \<and> c_values c1 [0] = 10 \<and> c_values c1 [1] = 20"
    using b translate_degree_north [of ex_degrees_north "''lat''" ?c'] by auto
  show ?thesis
    using a b ra rb by (simp add: coords_getitem_def)
qed

text \<open>
  C3. For every dataset in which a role's predicate matches exactly one coordinate and
  that coordinate carries a \<^verbatim>\<open>units\<close> attribute, after the per-role translation step the
  renamed coordinate's attribute under the key \<^verbatim>\<open>units\<close> equals the canonical unit string
  of the role. The code does not do that: on \<open>ex_level\<close>, whose only coordinate \<^verbatim>\<open>lev\<close>
  records \<^verbatim>\<open>Pa\<close>, the vertical-pressure step returns the coordinate \<^verbatim>\<open>level\<close> converted to
  \<^verbatim>\<open>hPa\<close> with the single attribute \<^verbatim>\<open>untis\<close>; nothing is recorded under \<^verbatim>\<open>units\<close>.
\<close>

theorem translator_writes_untis:
  "match_values is_vertical_pressure (ds_coords ex_level) = [''lev'']
   \<and> map_sum id c_attrs (coords_getitem ex_level ''lev'') = Inr [(''units'', ''Pa'')]
   \<and> (\<exists>data1 c1.
         translator ''level'' ''hPa'' is_vertical_pressure ''vertical_pressure'' ex_level COORD_MODEL
           = Inr data1
       \<and> coords_getitem data1 ''level'' = Inr c1
       \<and> c_attrs c1 = [(''untis'', ''hPa'')]
       \<and> map_of (c_attrs c1) ''units'' = None
       \<and> map_of (c_attrs c1) ''units'' \<noteq> Some ''hPa'')"
  by (simp add: ex_level_def COORD_MODEL_def translator_def model_get_def Let_def
      rename_def rename_name_def rename_dims_def
      coords_getitem_def coords_setitem_def attrs_setitem_def coord_times_def
      convert_units_with_def simple_conversion_factor_def
      PRESSURE_CONVERSION_RULES_def source_step_def target_step_def)

text \<open>A role without a match leaves the dataset as it is, so \<^verbatim>\<open>translate\<close> passes it by.\<close>

lemma translator_no_match:
  "match_values is_cf_type (ds_coords data) = [] \<Longrightarrow>
   translator default_out_name default_units is_cf_type cf_type data coord_model = Inr data"
  by (simp add: translator_def)

lemma translate_skip:
  "list_all (\<lambda>t. match_values (snd (snd (snd t))) (ds_coords data) = []) before \<Longrightarrow>
   translate data coord_model (before @ rest) = translate data coord_model rest"
  by (induction before) (auto simp: translator_no_match)

text \<open>
  C8. For every dataset in which more than one coordinate satisfies a given role's
  predicate, the per-role translation step raises a classification-conflict error naming
  that role: it returns the error and no dataset, so nothing is renamed or converted for
  that role. Hence \<^verbatim>\<open>translate\<close> raises it when the roles registered before that role
  match no coordinate (second conjunct), and so for two coordinates that both satisfy the
  latitude predicate, \<^verbatim>\<open>latitude\<close> being the first role of \<^verbatim>\<open>TRANSLATORS\<close> (third
  conjunct).
\<close>

theorem translator_role_conflict:
  "(1 < length (match_values is_cf_type (ds_coords data)) \<longrightarrow>
      translator default_out_name default_units is_cf_type cf_type data coord_model
        = Inl (RoleConflict cf_type))
   \<and> (list_all (\<lambda>t. match_values (snd (snd (snd t))) (ds_coords data) = []) before
       \<and> 1 < length (match_values is_cf_type (ds_coords data)) \<longrightarrow>
      translate data coord_model
          (before @ (cf_type, default_out_name, default_units, is_cf_type) # rest)
        = Inl (RoleConflict cf_type))
   \<and> (1 < length (match_values is_latitude (ds_coords data)) \<longrightarrow>
      translate data coord_model TRANSLATORS = Inl (RoleConflict ''latitude''))"
proof (intro conjI impI)
  assume "1 < length (match_values is_cf_type (ds_coords data))"
  then show "translator default_out_name default_units is_cf_type cf_type data coord_model
               = Inl (RoleConflict cf_type)"
    by (simp add: translator_def Let_def)
next
  let ?role = "(cf_type, default_out_name, default_units, is_cf_type)"
  assume h: "list_all (\<lambda>t. match_values (snd (snd (snd t))) (ds_coords data) = []) before
       \<and> 1 < length (match_values is_cf_type (ds_coords data))"
  then have "translate data coord_model (before @ ?role # rest)
               = translate data coord_model (?role # rest)"
    by (simp add: translate_skip)
  also from h have "\<dots> = Inl (RoleConflict cf_type)"
    by (simp add: translator_def Let_def)
  finally show "translate data coord_model (before @ ?role # rest) = Inl (RoleConflict cf_type)" .
next
  assume "1 < length (match_values is_latitude (ds_coords data))"
  then show "translate data coord_model TRANSLATORS = Inl (RoleConflict ''latitude'')"
    by (simp add: TRANSLATORS_def translator_def Let_def)
qed

text \<open>
  C8 on \<open>ex_two_lat\<close>, where \<^verbatim>\<open>lat\<close> and \<^verbatim>\<open>g0_lat_0\<close> both satisfy the latitude
  predicate, and on \<open>ex_two_lon\<close>, where two coordinates satisfy the longitude predicate
  and the role before it, \<^verbatim>\<open>latitude\<close>, matches nothing.
\<close>

theorem translator_role_conflict_witness:
  "1 < length (match_values is_latitude (ds_coords ex_two_lat))
   \<and> translator ''latitude'' ''degrees_north'' is_latitude ''latitude'' ex_two_lat COORD_MODEL
        = Inl (RoleConflict ''latitude'')
   \<and> translate ex_two_lat COORD_MODEL TRANSLATORS = Inl (RoleConflict ''latitude'')
   \<and> match_values is_latitude (ds_coords ex_two_lon) = []
   \<and> 1 < length (match_values is_longitude (ds_coords ex_two_lon))
   \<and> translate ex_two_lon COORD_MODEL TRANSLATORS = Inl (RoleConflict ''longitude'')"
proof -
  have h: "1 < length (match_values is_latitude (ds_coords ex_two_lat))"
    by (simp add: ex_two_lat_def is_latitude_def VALID_LAT_UNITS_def)
  have k: "match_values is_latitude (ds_coords ex_two_lon) = []"
    "1 < length (match_values is_longitude (ds_coords ex_two_lon))"
    by (simp_all add: ex_two_lon_def is_latitude_def VALID_LAT_UNITS_def is_longitude_def
        VALID_LON_UNITS_def)
  have t: "TRANSLATORS =
      [(''latitude'', ''latitude'', ''degrees_north'', is_latitude)]
      @ (''longitude'', ''longitude'', ''degrees_east'', is_longitude) # tl (tl TRANSLATORS)"
    by (simp add: TRANSLATORS_def)
  have r: "translate ex_two_lon COORD_MODEL TRANSLATORS = Inl (RoleConflict ''longitude'')"
    using k translator_role_conflict [of is_longitude ex_two_lon "''longitude''" "''degrees_east''"
        "''longitude''" COORD_MODEL "[(''latitude'', ''latitude'', ''degrees_north'', is_latitude)]"
        "tl (tl TRANSLATORS)"]
    by (subst t) simp
  show ?thesis
    using h k r translator_role_conflict [of is_latitude ex_two_lat "''latitude''"
        "''degrees_north''" "''latitude''" COORD_MODEL "[]" "[]"]
    by simp
qed

text \<open>
  C9, as stated: when a role's predicate matches exactly one coordinate, the step raises
  a naming-conflict error if and only if another coordinate already bears the canonical
  name; in particular, when the matched coordinate itself bears the canonical name, no
  error is raised and the rename is benign. The last part fails on \<open>ex_step_hours\<close>: its
  forecast period is called \<^verbatim>\<open>step\<close>, the canonical name, and records \<^verbatim>\<open>hours\<close>; the step
  raises \<^verbatim>\<open>ConversionError\<close>, since no rule converts \<^verbatim>\<open>hours\<close> to \<^verbatim>\<open>h\<close>.
\<close>

theorem translator_naming_conflict_counterexample:
  "match_values is_forecast_period (ds_coords ex_step_hours) = [''step'']
   \<and> model_get COORD_MODEL ''forecast_period'' ''out_name'' ''step'' = ''step''
   \<and> translator ''step'' ''h'' is_forecast_period ''forecast_period'' ex_step_hours COORD_MODEL
        = Inl ConversionError"
  by (simp add: ex_step_hours_def COORD_MODEL_def translator_def model_get_def
      is_forecast_period_def rename_def rename_name_def rename_dims_def
      coords_getitem_def convert_units_with_def simple_conversion_factor_def
      PRESSURE_CONVERSION_RULES_def source_step_def target_step_def)

text \<open>
  C9, amended. For every dataset in which a role's predicate matches exactly one
  coordinate, the per-role translation step raises a naming-conflict error if and only if
  some coordinate other than the matched one already bears the role's canonical name,
  and the error then names the role; in particular, when the matched coordinate itself
  already bears the canonical name, the rename is benign and the step raises no
  naming-conflict and no classification-conflict error: the only error it can still
  raise is the \<^verbatim>\<open>ConversionError\<close> of the unit conversion.
\<close>

theorem translator_naming_conflict_iff:
  "match_values is_cf_type (ds_coords data) = [m] \<longrightarrow>
     ((\<exists>role. translator default_out_name default_units is_cf_type cf_type data coord_model
                = Inl (NamingConflict role))
        = (\<exists>name \<in> set (map fst (ds_coords data)).
             name \<noteq> m \<and> name = model_get coord_model cf_type ''out_name'' default_out_name))
     \<and> ((\<exists>name \<in> set (map fst (ds_coords data)).
             name \<noteq> m \<and> name = model_get coord_model cf_type ''out_name'' default_out_name) \<longrightarrow>
         translator default_out_name default_units is_cf_type cf_type data coord_model
           = Inl (NamingConflict cf_type))
     \<and> (m = model_get coord_model cf_type ''out_name'' default_out_name \<longrightarrow>
          (\<forall>e. translator default_out_name default_units is_cf_type cf_type data coord_model = Inl e
                 \<longrightarrow> e = ConversionError)
          \<and> rename data m (model_get coord_model cf_type ''out_name'' default_out_name) = data)"
proof (intro impI)
  assume one: "match_values is_cf_type (ds_coords data) = [m]"
  let ?out = "model_get coord_model cf_type ''out_name'' default_out_name"
  let ?taken = "\<exists>name \<in> set (map fst (ds_coords data)). name \<noteq> m \<and> name = ?out"
  let ?r = "translator default_out_name default_units is_cf_type cf_type data coord_model"
  have ex: "list_ex (\<lambda>name. name = ?out \<and> name \<noteq> m) (map fst (ds_coords data)) = ?taken"
    by (force simp: list_ex_iff)
  have taken: "?taken \<Longrightarrow> ?r = Inl (NamingConflict cf_type)"
    using one ex by (simp add: translator_def Let_def)
  have free: "\<not> ?taken \<Longrightarrow> ?r \<noteq> Inl (NamingConflict role)" for role
    using one ex
    by (auto simp: translator_def Let_def coords_getitem_def attrs_setitem_def
        split: option.splits sum.splits dest: convert_units_with_error)
  from match_values_lookup [OF one] obtain c where c: "map_of (ds_coords data) m = Some c"
    by blast
  have self: "m = ?out \<Longrightarrow> \<not> ?taken" by auto
  have only: "m = ?out \<Longrightarrow> ?r = Inl e \<Longrightarrow> e = ConversionError" for e
    using one ex self c rename_same [of data m]
    by (auto simp: translator_def Let_def coords_getitem_def attrs_setitem_setitem
        split: option.splits sum.splits dest: convert_units_with_error)
  show "((\<exists>role. ?r = Inl (NamingConflict role)) = ?taken)
     \<and> (?taken \<longrightarrow> ?r = Inl (NamingConflict cf_type))
     \<and> (m = ?out \<longrightarrow> (\<forall>e. ?r = Inl e \<longrightarrow> e = ConversionError) \<and> rename data m ?out = data)"
    using taken free only rename_same [of data m] by (metis (no_types, lifting))
qed

text \<open>
  The amended C9 on \<open>ex_name_taken\<close> (another coordinate is called \<^verbatim>\<open>latitude\<close>: the
  error) and on \<open>ex_canonical\<close> (the matched coordinate is called \<^verbatim>\<open>latitude\<close>: no
  naming conflict, the rename changes nothing).
\<close>

theorem translator_naming_conflict_iff_witness:
  "match_values is_latitude (ds_coords ex_name_taken) = [''lat'']
   \<and> ''latitude'' \<in> set (map fst (ds_coords ex_name_taken))
   \<and> ''latitude'' \<noteq> ''lat''
   \<and> model_get COORD_MODEL ''latitude'' ''out_name'' ''latitude'' = ''latitude''
   \<and> translator ''latitude'' ''degrees_north'' is_latitude ''latitude'' ex_name_taken COORD_MODEL
        = Inl (NamingConflict ''latitude'')
   \<and> match_values is_latitude (ds_coords ex_canonical) = [''latitude'']
   \<and> translator ''latitude'' ''degrees_north'' is_latitude ''latitude'' ex_canonical COORD_MODEL
        \<noteq> Inl (NamingConflict ''latitude'')
   \<and> rename ex_canonical ''latitude'' ''latitude'' = ex_canonical"
proof -
  have a: "match_values is_latitude (ds_coords ex_name_taken) = [''lat'']"
    by (simp add: ex_name_taken_def is_latitude_def VALID_LAT_UNITS_def)
  have b: "\<exists>name \<in> set (map fst (ds_coords ex_name_taken)).
         name \<noteq> ''lat'' \<and> name = model_get COORD_MODEL ''latitude'' ''out_name'' ''latitude''"
    "''latitude'' \<in> set (map fst (ds_coords ex_name_taken))"
    by (simp_all add: ex_name_taken_def model_get_def COORD_MODEL_def)
  have c: "match_values is_latitude (ds_coords ex_canonical) = [''latitude'']"
    by (simp add: ex_canonical_def is_latitude_def VALID_LAT_UNITS_def)
  have d: "''latitude'' = model_get COORD_MODEL ''latitude'' ''out_name'' ''latitude''"
    by (simp add: model_get_def COORD_MODEL_def)
  have ra: "translator ''latitude'' ''degrees_north'' is_latitude ''latitude'' ex_name_taken
              COORD_MODEL = Inl (NamingConflict ''latitude'')"
    using a b translator_naming_conflict_iff [of is_latitude ex_name_taken "''lat''" "''latitude''"
        "''degrees_north''" "''latitude''" COORD_MODEL]
    by simp
  have rb: "translator ''latitude'' ''degrees_north'' is_latitude ''latitude'' ex_canonical
              COORD_MODEL \<noteq> Inl (NamingConflict ''latitude'')
            \<and> rename ex_canonical ''latitude'' ''latitude'' = ex_canonical"
    using c d translator_naming_conflict_iff [of is_latitude ex_canonical "''latitude''"
        "''latitude''" "''degrees_north''" "''latitude''" COORD_MODEL]
    by auto
  show ?thesis
    using a b(2) c d ra rb by simp
qed

subsection \<open>Claims about the valid time\<close>

text \<open>
  C2, as stated: for every dataset with no coordinate matching the valid-time predicate
  and with coordinates matching the reference-time and the period predicates,
  \<^verbatim>\<open>ensure_valid_time_present\<close> returns both names non-empty. On \<open>ex_unnamed\<close>, whose
  reference time is the coordinate named by the empty string, the returned
  reference-time name is that empty string.
\<close>

theorem ensure_valid_time_present_counterexample:
  "match_values is_valid_time (ds_coords ex_unnamed) = []
   \<and> match_values is_forecast_reference_time (ds_coords ex_unnamed) = ['''']
   \<and> match_values is_forecast_period (ds_coords ex_unnamed) = [''step'']
   \<and> map_sum id snd (ensure_valid_time_present ex_unnamed ''valid_time'')
        = Inr (''valid_time'', '''', ''step'')"
  by (simp add: ex_unnamed_def time_predicate_defs ensure_valid_time_present_def
      coords_getitem_def attrs_setitem_setitem)

text \<open>
  C2, amended. For every dataset with no coordinate matching the valid-time predicate:
  if no coordinate matches the forecast-reference-time predicate,
  \<^verbatim>\<open>ensure_valid_time_present\<close> raises the derivation error. Otherwise it assigns the
  coordinate \<^verbatim>\<open>valid_time_name\<close> (\<^verbatim>\<open>valid_time\<close> by default) and returns that name with
  the names of the first matching reference-time and period coordinates, which are
  non-empty unless a coordinate of the dataset is named by the empty string. When a
  coordinate matches the forecast-period predicate, the derived coordinate is the sum of
  the reference time and the period, element by element after broadcasting by dimension
  name; when none does, it has the values of the reference time and the returned period
  name is empty. In both cases its only change after that is the attribute
  \<^verbatim>\<open>standard_name = time\<close>, with which it satisfies the valid-time predicate.
\<close>

theorem ensure_valid_time_present_derives:
  "match_values is_valid_time (ds_coords data) = [] \<longrightarrow>
     (match_values is_forecast_reference_time (ds_coords data) = [] \<longrightarrow>
        ensure_valid_time_present data valid_time_name = Inl DerivationError)
     \<and> (match_values is_forecast_reference_time (ds_coords data) = time # other_times
        \<and> match_values is_forecast_period (ds_coords data) = step # other_steps \<longrightarrow>
          (\<exists>time_coord step_coord v.
              coords_getitem data time = Inr time_coord
            \<and> coords_getitem data step = Inr step_coord
            \<and> ensure_valid_time_present data valid_time_name
                = Inr (coords_setitem data valid_time_name v, valid_time_name, time, step)
            \<and> coords_getitem (coords_setitem data valid_time_name v) valid_time_name = Inr v
            \<and> v = (coord_add time_coord step_coord)\<lparr>c_attrs := [(''standard_name'', ''time'')]\<rparr>
            \<and> (\<forall>idx. c_values v idx
                  = c_values time_coord (along (c_dims v) (c_dims time_coord) idx)
                    + c_values step_coord (along (c_dims v) (c_dims step_coord) idx))
            \<and> is_valid_time v
            \<and> ('''' \<notin> set (map fst (ds_coords data)) \<longrightarrow> time \<noteq> '''' \<and> step \<noteq> '''')))
     \<and> (match_values is_forecast_reference_time (ds_coords data) = time # other_times
        \<and> match_values is_forecast_period (ds_coords data) = [] \<longrightarrow>
          (\<exists>time_coord v.
              coords_getitem data time = Inr time_coord
            \<and> ensure_valid_time_present data valid_time_name
                = Inr (coords_setitem data valid_time_name v, valid_time_name, time, '''')
            \<and> coords_getitem (coords_setitem data valid_time_name v) valid_time_name = Inr v
            \<and> v = time_coord\<lparr>c_attrs :=
                     AList.update ''standard_name'' ''time'' (c_attrs time_coord)\<rparr>
            \<and> c_values v = c_values time_coord
            \<and> is_valid_time v
            \<and> ('''' \<notin> set (map fst (ds_coords data)) \<longrightarrow> time \<noteq> '''')))"
proof (intro impI conjI)
  assume vt: "match_values is_valid_time (ds_coords data) = []"
  {
    assume "match_values is_forecast_reference_time (ds_coords data) = []"
    with vt show "ensure_valid_time_present data valid_time_name = Inl DerivationError"
      by (simp add: ensure_valid_time_present_def)
  next
    assume h: "match_values is_forecast_reference_time (ds_coords data) = time # other_times
        \<and> match_values is_forecast_period (ds_coords data) = step # other_steps"
    then have t: "match_values is_forecast_reference_time (ds_coords data) = time # other_times"
      and s: "match_values is_forecast_period (ds_coords data) = step # other_steps"
      by simp_all
    from match_values_lookup [OF t] obtain time_coord
      where tc: "map_of (ds_coords data) time = Some time_coord" by blast
    from match_values_lookup [OF s] obtain step_coord
      where sc: "map_of (ds_coords data) step = Some step_coord" by blast
    let ?v = "(coord_add time_coord step_coord)\<lparr>c_attrs := [(''standard_name'', ''time'')]\<rparr>"
    have names: "time \<in> set (map fst (ds_coords data))" "step \<in> set (map fst (ds_coords data))"
      using t s match_values_names [of time is_forecast_reference_time "ds_coords data"]
        match_values_names [of step is_forecast_period "ds_coords data"] by simp_all
    have 1: "coords_getitem data time = Inr time_coord" "coords_getitem data step = Inr step_coord"
      using tc sc by (simp_all add: coords_getitem_def)
    have 2: "ensure_valid_time_present data valid_time_name
                = Inr (coords_setitem data valid_time_name ?v, valid_time_name, time, step)"
      using vt t s 1
      by (simp add: ensure_valid_time_present_def attrs_setitem_setitem coord_add_def Let_def)
    have 3: "\<forall>idx. c_values ?v idx
                  = c_values time_coord (along (c_dims ?v) (c_dims time_coord) idx)
                    + c_values step_coord (along (c_dims ?v) (c_dims step_coord) idx)"
      by (simp add: coord_add_def Let_def)
    have 4: "is_valid_time ?v"
      by (simp add: is_valid_time_def)
    have 5: "'''' \<notin> set (map fst (ds_coords data)) \<longrightarrow> time \<noteq> '''' \<and> step \<noteq> ''''"
      using names by blast
    show "\<exists>time_coord step_coord v.
              coords_getitem data time = Inr time_coord
            \<and> coords_getitem data step = Inr step_coord
            \<and> ensure_valid_time_present data valid_time_name
                = Inr (coords_setitem data valid_time_name v, valid_time_name, time, step)
            \<and> coords_getitem (coords_setitem data valid_time_name v) valid_time_name = Inr v
            \<and> v = (coord_add time_coord step_coord)\<lparr>c_attrs := [(''standard_name'', ''time'')]\<rparr>
            \<and> (\<forall>idx. c_values v idx
                  = c_values time_coord (along (c_dims v) (c_dims time_coord) idx)
                    + c_values step_coord (along (c_dims v) (c_dims step_coord) idx))
            \<and> is_valid_time v
            \<and> ('''' \<notin> set (map fst (ds_coords data)) \<longrightarrow> time \<noteq> '''' \<and> step \<noteq> '''')"
      using 1 2 3 4 5 coords_getitem_setitem [of data valid_time_name ?v] by blast
  next
    assume h: "match_values is_forecast_reference_time (ds_coords data) = time # other_times
        \<and> match_values is_forecast_period (ds_coords data) = []"
    then have t: "match_values is_forecast_reference_time (ds_coords data) = time # other_times"
      and s: "match_values is_forecast_period (ds_coords data) = []" by simp_all
    from match_values_lookup [OF t] obtain time_coord
      where tc: "map_of (ds_coords data) time = Some time_coord" by blast
    let ?v = "time_coord\<lparr>c_attrs :=
                AList.update ''standard_name'' ''time'' (c_attrs time_coord)\<rparr>"
    have names: "time \<in> set (map fst (ds_coords data))"
      using t match_values_names [of time is_forecast_reference_time "ds_coords data"] by simp
    have 1: "coords_getitem data time = Inr time_coord"
      using tc by (simp add: coords_getitem_def)
    have 2: "ensure_valid_time_present data valid_time_name
                = Inr (coords_setitem data valid_time_name ?v, valid_time_name, time, '''')"
      using vt t s 1
      by (simp add: ensure_valid_time_present_def attrs_setitem_setitem)
    have 3: "c_values ?v = c_values time_coord" by simp
    have 4: "is_valid_time ?v" by (rule is_valid_time_tagged)
    have 5: "'''' \<notin> set (map fst (ds_coords data)) \<longrightarrow> time \<noteq> ''''"
      using names by blast
    show "\<exists>time_coord v.
              coords_getitem data time = Inr time_coord
            \<and> ensure_valid_time_present data valid_time_name
                = Inr (coords_setitem data valid_time_name v, valid_time_name, time, '''')
            \<and> coords_getitem (coords_setitem data valid_time_name v) valid_time_name = Inr v
            \<and> v = time_coord\<lparr>c_attrs :=
                     AList.update ''standard_name'' ''time'' (c_attrs time_coord)\<rparr>
            \<and> c_values v = c_values time_coord
            \<and> is_valid_time v
            \<and> ('''' \<notin> set (map fst (ds_coords data)) \<longrightarrow> time \<noteq> '''')"
      using 1 2 3 4 5 coords_getitem_setitem [of data valid_time_name ?v] by blast
  }
qed

text \<open>
  The amended C2 on \<open>ex_forecast\<close> (reference time and period: the valid time is
  two-dimensional, and its element for the second reference time and the third period is
  their sum), on \<open>ex_reference_only\<close> (no period) and on \<open>ex_lat\<close> (no reference time).
\<close>

theorem ensure_valid_time_present_derives_witness:
  "match_values is_valid_time (ds_coords ex_forecast) = []
   \<and> match_values is_forecast_reference_time (ds_coords ex_forecast) = [''time'']
   \<and> match_values is_forecast_period (ds_coords ex_forecast) = [''step'']
   \<and> '''' \<notin> set (map fst (ds_coords ex_forecast))
   \<and> map_sum id snd (ensure_valid_time_present ex_forecast ''valid_time'')
        = Inr (''valid_time'', ''time'', ''step'')
   \<and> (\<exists>data1 v.
         ensure_valid_time_present ex_forecast ''valid_time''
           = Inr (data1, ''valid_time'', ''time'', ''step'')
       \<and> coords_getitem data1 ''valid_time'' = Inr v
       \<and> c_dims v = [''time'', ''step''] \<and> c_shape v = [2, 3]
       \<and> c_values v [1, 2] = 86400 + 7200)
   \<and> match_values is_valid_time (ds_coords ex_reference_only) = []
   \<and> match_values is_forecast_reference_time (ds_coords ex_reference_only) = [''time'']
   \<and> match_values is_forecast_period (ds_coords ex_reference_only) = []
   \<and> map_sum id snd (ensure_valid_time_present ex_reference_only ''valid_time'')
        = Inr (''valid_time'', ''time'', '''')
   \<and> match_values is_valid_time (ds_coords ex_lat) = []
   \<and> match_values is_forecast_reference_time (ds_coords ex_lat) = []
   \<and> ensure_valid_time_present ex_lat ''valid_time'' = Inl DerivationError"
proof -
  have a: "match_values is_valid_time (ds_coords ex_forecast) = []"
    "match_values is_forecast_reference_time (ds_coords ex_forecast) = [''time'']"
    "match_values is_forecast_period (ds_coords ex_forecast) = [''step'']"
    "'''' \<notin> set (map fst (ds_coords ex_forecast))"
    by (simp_all add: ex_forecast_def time_predicate_defs)
  have b: "match_values is_valid_time (ds_coords ex_reference_only) = []"
    "match_values is_forecast_reference_time (ds_coords ex_reference_only) = [''time'']"
    "match_values is_forecast_period (ds_coords ex_reference_only) = []"
    by (simp_all add: ex_reference_only_def time_predicate_defs)
  have c: "match_values is_valid_time (ds_coords ex_lat) = []"
    "match_values is_forecast_reference_time (ds_coords ex_lat) = []"
    by (simp_all add: ex_lat_def time_predicate_defs)
  from a ensure_valid_time_present_derives [of ex_forecast "''valid_time''" "''time''" "[]"
      "''step''" "[]"]
  have ra: "map_sum id snd (ensure_valid_time_present ex_forecast ''valid_time'')
        = Inr (''valid_time'', ''time'', ''step'')"
    by auto
  from b ensure_valid_time_present_derives [of ex_reference_only "''valid_time''" "''time''" "[]"]
  have rb: "map_sum id snd (ensure_valid_time_present ex_reference_only ''valid_time'')
        = Inr (''valid_time'', ''time'', '''')"
    by auto
  from c ensure_valid_time_present_derives [of ex_lat "''valid_time''"]
  have rc: "ensure_valid_time_present ex_lat ''valid_time'' = Inl DerivationError"
    by simp
  have rv: "\<exists>data1 v.
         ensure_valid_time_present ex_forecast ''valid_time''
           = Inr (data1, ''valid_time'', ''time'', ''step'')
       \<and> coords_getitem data1 ''valid_time'' = Inr v
       \<and> c_dims v = [''time'', ''step''] \<and> c_shape v = [2, 3]
       \<and> c_values v [1, 2] = 86400 + 7200"
    by (simp add: ex_forecast_def time_predicate_defs ensure_valid_time_present_def
        coords_getitem_def coords_setitem_def attrs_setitem_def coord_add_def along_def Let_def)
  from a b c ra rb rc rv show ?thesis by simp
qed

text \<open>
  C4. When \<^verbatim>\<open>ensure_valid_time_present\<close> succeeds and the valid time is not a dimension,
  \<^verbatim>\<open>ensure_valid_time\<close> swaps the reference-time dimension if the valid time has as many
  elements as the reference time, else the period dimension if it has as many elements
  as the period, and otherwise returns the dataset unchanged. The code compares the size
  of the period with itself instead. On \<open>ex_forecast\<close> the derived valid time has
  2 * 3 = 6 elements, the reference time 2 and the period 3, so the dataset should come
  back unchanged; the code calls \<^verbatim>\<open>swap_dims\<close> from \<^verbatim>\<open>step\<close> to \<^verbatim>\<open>valid_time\<close>, which the
  container rejects because the valid time is not one-dimensional along \<^verbatim>\<open>step\<close>.
\<close>

theorem ensure_valid_time_self_comparison:
  "\<exists>data1 time_coord step_coord valid_time_coord.
      ensure_valid_time_present ex_forecast ''valid_time''
        = Inr (data1, ''valid_time'', ''time'', ''step'')
    \<and> ''valid_time'' \<notin> set (map fst (ds_dims data1))
    \<and> coords_getitem data1 ''time'' = Inr time_coord \<and> coord_size time_coord = 2
    \<and> coords_getitem data1 ''step'' = Inr step_coord \<and> coord_size step_coord = 3
    \<and> coords_getitem data1 ''valid_time'' = Inr valid_time_coord
    \<and> coord_size valid_time_coord = 6
    \<and> ensure_valid_time ex_forecast = swap_dims data1 ''step'' ''valid_time''
    \<and> ensure_valid_time ex_forecast = Inl SwapDimsError
    \<and> ensure_valid_time ex_forecast \<noteq> Inr data1"
  by (simp add: ex_forecast_def time_predicate_defs ensure_valid_time_present_def
      ensure_valid_time_def coords_getitem_def coords_setitem_def attrs_setitem_def
      coord_add_def coord_size_def swap_dims_def Let_def)

text \<open>
  C10. For every dataset that already contains a coordinate satisfying the valid-time
  predicate, \<^verbatim>\<open>ensure_valid_time_present\<close> returns the name of the first such coordinate
  with empty reference-time and period names, whatever other coordinates exist, and
  leaves the dataset as it is. Consequently, if that coordinate is not a dimension and no
  coordinate is named by the empty string, \<^verbatim>\<open>ensure_valid_time\<close> fails with the
  \<^verbatim>\<open>KeyError\<close> of the lookup of the empty name and returns no dataset.
\<close>

theorem ensure_valid_time_key_error:
  "match_values is_valid_time (ds_coords data) = valid_time # others \<longrightarrow>
     ensure_valid_time_present data valid_time_name = Inr (data, valid_time, '''', '''')
     \<and> (valid_time \<notin> set (map fst (ds_dims data)) \<and> '''' \<notin> set (map fst (ds_coords data)) \<longrightarrow>
          ensure_valid_time data = Inl (KeyError ''''))"
proof (intro impI conjI)
  assume v: "match_values is_valid_time (ds_coords data) = valid_time # others"
  then show "ensure_valid_time_present data valid_time_name = Inr (data, valid_time, '''', '''')"
    by (simp add: ensure_valid_time_present_def)
  assume "valid_time \<notin> set (map fst (ds_dims data)) \<and> '''' \<notin> set (map fst (ds_coords data))"
  then have d: "valid_time \<notin> set (map fst (ds_dims data))"
    and n: "map_of (ds_coords data) '''' = None"
    by (simp_all add: map_of_eq_None_iff)
  from v have "ensure_valid_time_present data ''valid_time'' = Inr (data, valid_time, '''', '''')"
    by (simp add: ensure_valid_time_present_def)
  with d n show "ensure_valid_time data = Inl (KeyError '''')"
    by (simp add: ensure_valid_time_def coords_getitem_def)
qed

text \<open>
  C10 on \<open>ex_valid_time\<close>: the valid time \<^verbatim>\<open>t\<close> is returned with two empty names although
  the reference time \<^verbatim>\<open>time\<close> exists, and \<^verbatim>\<open>ensure_valid_time\<close> raises the \<^verbatim>\<open>KeyError\<close>.
\<close>

theorem ensure_valid_time_key_error_witness:
  "match_values is_valid_time (ds_coords ex_valid_time) = [''t'']
   \<and> match_values is_forecast_reference_time (ds_coords ex_valid_time) = [''time'']
   \<and> ''t'' \<notin> set (map fst (ds_dims ex_valid_time))
   \<and> '''' \<notin> set (map fst (ds_coords ex_valid_time))
   \<and> ensure_valid_time_present ex_valid_time ''valid_time'' = Inr (ex_valid_time, ''t'', '''', '''')
   \<and> ensure_valid_time ex_valid_time = Inl (KeyError '''')"
proof -
  have a: "match_values is_valid_time (ds_coords ex_valid_time) = [''t'']"
    by (simp add: ex_valid_time_def is_valid_time_def)
  have b: "match_values is_forecast_reference_time (ds_coords ex_valid_time) = [''time'']"
    by (simp add: ex_valid_time_def is_forecast_reference_time_def)
  have c: "''t'' \<notin> set (map fst (ds_dims ex_valid_time))
           \<and> '''' \<notin> set (map fst (ds_coords ex_valid_time))"
    by (simp add: ex_valid_time_def)
  show ?thesis
    using a b c ensure_valid_time_key_error [of ex_valid_time "''t''" "[]" "''valid_time''"]
    by simp
qed

end
